theory Spec2Isabelle
  imports Complex_Main
begin

section \<open>Data model (contract.ts)\<close>

text \<open>
  The screening engine is modelled as pure functions over the records of
  \<^verbatim>\<open>contract.ts\<close>. A JavaScript \<^verbatim>\<open>number\<close> is a \<^typ>\<open>real\<close>: IEEE rounding is not
  modelled, and neither are \<^verbatim>\<open>NaN\<close> and the infinities. A field that may be \<^verbatim>\<open>null\<close> or
  absent is an \<^typ>\<open>'a option\<close>. Record fields carry a short prefix where the source's
  name is a single letter or is used by several interfaces.
\<close>

datatype Trend = Up | Down | Sideways

datatype SetupReason =
    Breakout | Momentum | Pullback | Fib_Pullback | Consolidation | Reversal
  | Reversal_Accumulation | Reversal_Distribution | BB_Lower_Bounce | BB_Upper_Reject
  | Stoch_Oversold_Reversal | Stoch_Overbought_Reversal

datatype CandlestickPattern =
    Doji | Hammer | Long_lower_shadow | Gravestone_doji | Shooting_star
  | Engulfing_bullish | Engulfing_bearish | No_pattern

datatype IndexName = Sp500 | Dowjones | Nasdaq100 | Russell2000

datatype VolumeShift = Buyer | Seller | Neutral

datatype BBPosition = Lower_bounce | Upper_reject | Middle

datatype StochPosition = Oversold | Overbought | Stoch_neutral

datatype FVGType = Bullish | Bearish

datatype TargetType = Fvg | Swing | Imbalance | Percentage

record Candle =
  c_t :: string
  c_o :: real
  c_h :: real
  c_l :: real
  c_c :: real
  c_v :: real

record FVGZone =
  fvg_type :: FVGType
  topPrice :: real
  bottomPrice :: real
  midpoint :: real
  startDate :: string
  endDate :: string
  isFilled :: bool

record SwingPoint =
  sp_date :: string
  sp_price :: real
  sp_high :: bool
  sp_strength :: nat

text \<open>
  The description of a price target is one of three texts; the one of a swing target
  embeds the date of the swing high it was taken from.
\<close>

datatype TargetDescription =
    FVG_retracement | Previous_swing_high string | Maximum_realistic_target

record PriceTarget =
  pt_type :: TargetType
  pt_price :: real
  pt_description :: TargetDescription
  pt_confidence :: real

record VolumeAnalysis =
  va_shift :: VolumeShift
  va_strength :: real
  buyerVolume :: real
  sellerVolume :: real

record TickerMeta =
  meta_ticker :: string
  company :: "string option"
  sector :: "string option"
  industry :: "string option"
  marketCap :: "real option"
  nextEarningsDate :: "string option"
  lastCompletedBar :: "string option"

record FixedFilters =
  minPrice :: real
  minAvgVol20 :: real
  minRelativeVol :: real
  minBars :: real

definition FIXED_FILTERS :: FixedFilters where
  "FIXED_FILTERS = \<lparr>minPrice = 30, minAvgVol20 = 1000000, minRelativeVol = 1, minBars = 250\<rparr>"

record ScreenerParams =
  user_sector :: string
  user_industry :: string
  market_cap_min :: real
  market_cap_max :: real
  rsi_min :: real
  rsi_max :: real
  stoch_k_min :: real
  stoch_k_max :: real
  trend_type :: string
  trend_lookback :: real
  ma_cross :: string
  sr_proximity_pct :: real
  adx_min :: real
  atr_lookback :: real
  fib_reference :: string
  fib_zone :: string
  max_results :: real
  as_of_date :: string
  leo_mode_enabled :: bool
  index_filters :: "IndexName list"
  min_price_leo :: real
  candlestick_patterns :: "CandlestickPattern list"
  require_volume_shift :: bool
  bb_bounce_enabled :: bool
  stoch_oversold_threshold :: real
  stoch_overbought_threshold :: real
  earnings_warning_days :: real
  timeframe :: string

text \<open>
  The fields whose TypeScript type is a union of string literals and which
  \<^verbatim>\<open>validateParams\<close> checks at run time (\<open>ma_cross\<close>, \<open>trend_type\<close>, \<open>fib_reference\<close>,
  \<open>fib_zone\<close>), and \<open>timeframe\<close>, are strings here, so that a value outside the union can
  be written down. \<^verbatim>\<open>DEFAULT_PARAMS\<close> takes today's date as its argument.
\<close>

definition DEFAULT_PARAMS :: "string \<Rightarrow> ScreenerParams" where
  "DEFAULT_PARAMS today =
     \<lparr>user_sector = ''*'', user_industry = ''*'',
      market_cap_min = 2000000000, market_cap_max = 10000000000000,
      rsi_min = 0, rsi_max = 100, stoch_k_min = 0, stoch_k_max = 100,
      trend_type = ''*'', trend_lookback = 60, ma_cross = ''none'',
      sr_proximity_pct = 3, adx_min = 0, atr_lookback = 14,
      fib_reference = ''swing_low_to_high'', fib_zone = ''*'',
      max_results = 50, as_of_date = today,
      leo_mode_enabled = False, index_filters = [Sp500, Dowjones, Nasdaq100],
      min_price_leo = 50, candlestick_patterns = [Doji, Hammer, Long_lower_shadow],
      require_volume_shift = True, bb_bounce_enabled = True,
      stoch_oversold_threshold = 20, stoch_overbought_threshold = 80,
      earnings_warning_days = 30, timeframe = ''weekly''\<rparr>"

record Indicators =
  sma20 :: "real option"
  sma50 :: "real option"
  sma200 :: "real option"
  rsi14 :: "real option"
  stochK :: "real option"
  atr_val :: "real option"
  adx14 :: "real option"
  avgVol20 :: "real option"
  relVol :: "real option"
  hh20 :: "real option"
  ll20 :: "real option"
  bbWidth :: "real option"
  trend :: "Trend option"
  srDistancePct :: "real option"
  fibHit :: "bool option"
  reactionBullish :: "bool option"
  bbUpper :: "real option"
  bbLower :: "real option"
  bbMiddle :: "real option"
  bbPercentB :: "real option"
  stochD :: "real option"
  candlestickPattern :: "CandlestickPattern option"
  volumeShift :: "VolumeShift option"
  volumeShiftStrength :: "real option"
  fvgZones :: "FVGZone list option"
  swingHighs :: "SwingPoint list option"
  swingLows :: "SwingPoint list option"
  earningsWithin30Days :: "bool option"
  entryConfirmed :: "bool option"

text \<open>\<^verbatim>\<open>const indicators: Indicators = {}\<close>: every field absent.\<close>

definition no_indicators :: Indicators where
  "no_indicators =
     \<lparr>sma20 = None, sma50 = None, sma200 = None, rsi14 = None, stochK = None,
      atr_val = None, adx14 = None, avgVol20 = None, relVol = None, hh20 = None,
      ll20 = None, bbWidth = None, trend = None, srDistancePct = None, fibHit = None,
      reactionBullish = None, bbUpper = None, bbLower = None, bbMiddle = None,
      bbPercentB = None, stochD = None, candlestickPattern = None, volumeShift = None,
      volumeShiftStrength = None, fvgZones = None, swingHighs = None, swingLows = None,
      earningsWithin30Days = None, entryConfirmed = None\<rparr>"

record StockAnalysis =
  sa_ticker :: string
  sa_meta :: TickerMeta
  sa_candles :: "Candle list"
  sa_indicators :: Indicators
  setupReason :: SetupReason
  score :: real

record ClassifiedPick =
  Ticker :: string
  Company :: "string option"
  Price :: real
  MarketCap :: "real option"
  Volume :: real
  RelativeVolume :: real
  RSI :: real
  Sector :: "string option"
  Trend :: Trend
  NextEarningsDate :: "string option"
  SelectionReason :: SetupReason
  CandlestickPattern :: "CandlestickPattern option"
  VolumeShift :: "VolumeShift option"
  VolumeShiftStrength :: "real option"
  BBPosition :: "BBPosition option"
  BBPercentB :: "real option"
  StochPosition :: "StochPosition option"
  StochK :: "real option"
  EarningsWarning :: "bool option"
  PriceTargets :: "PriceTarget list option"
  EntryConfirmed :: "bool option"
  ReversalTimeline :: "string option"

record EngineInput =
  in_params :: ScreenerParams
  in_timeseries :: "(string \<times> Candle list) list option"
  in_metadata :: "(string \<rightharpoonup> TickerMeta) option"

record EngineOutput =
  out_as_of_date :: string
  picks :: "ClassifiedPick list"

text \<open>
  \<open>in_timeseries\<close> lists the entries of the source's object in the order in which
  \<^verbatim>\<open>Object.entries\<close> enumerates them. What the engine reads from outside its arguments is
  gathered in an environment: the index constituent lists of \<^verbatim>\<open>data/indexLists.ts\<close>,
  \<^verbatim>\<open>String.prototype.toUpperCase\<close>, and the clock, as the number of days from now to a
  date string (\<open>None\<close> when the string does not parse to a date).
\<close>

record Env =
  INDEX_CONSTITUENTS :: "IndexName \<Rightarrow> string list"
  toUpperCase :: "string \<Rightarrow> string"
  daysFromNow :: "string \<Rightarrow> real option"

section \<open>Array and value helpers\<close>

text \<open>
  \<^verbatim>\<open>xs.slice(-n)\<close> keeps the last \<open>n\<close> elements, all of them when the array is shorter;
  \<^verbatim>\<open>xs.slice(-0)\<close> is \<^verbatim>\<open>xs.slice(0)\<close>, the whole array.
\<close>

definition slice_last :: "nat \<Rightarrow> 'a list \<Rightarrow> 'a list" where
  "slice_last n xs = (if n = 0 then xs else drop (length xs - n) xs)"

text \<open>
  \<^verbatim>\<open>xs.slice(0, k)\<close> for an integer \<open>k\<close>: the first \<open>k\<close> elements, and for a negative \<open>k\<close>
  all but the last \<open>-k\<close>.
\<close>

definition slice_to :: "int \<Rightarrow> 'a list \<Rightarrow> 'a list" where
  "slice_to k xs = (if k < 0 then take (nat (int (length xs) + k)) xs else take (nat k) xs)"

text \<open>
  \<^verbatim>\<open>Math.max(...xs)\<close> and \<^verbatim>\<open>Math.min(...xs)\<close>. Every array the engine spreads is not empty
  (at least 250 bars reach the indicators), which is where these agree with the source.
\<close>

definition Math_max :: "real list \<Rightarrow> real" where
  "Math_max xs = Max (set xs)"

definition Math_min :: "real list \<Rightarrow> real" where
  "Math_min xs = Min (set xs)"

text \<open>
  Truthiness of a nullable number: \<^verbatim>\<open>null\<close>, \<^verbatim>\<open>undefined\<close> and \<open>0\<close> are falsy.
  \<open>or_else x d\<close> is \<^verbatim>\<open>x || d\<close>.
\<close>

definition truthy :: "real option \<Rightarrow> bool" where
  "truthy x = (case x of None \<Rightarrow> False | Some a \<Rightarrow> a \<noteq> 0)"

definition or_else :: "real option \<Rightarrow> real \<Rightarrow> real" where
  "or_else x d = (case x of None \<Rightarrow> d | Some a \<Rightarrow> if a = 0 then d else a)"

definition is_true :: "bool option \<Rightarrow> bool" where
  "is_true x = (x = Some True)"

section \<open>Indicator library (engine.ts)\<close>

text \<open>
  Every period the engine passes is a positive integer: the literals 14, 20, 50, 200 and
  the validated \<open>trend_lookback\<close> and \<open>atr_lookback\<close>.
\<close>

definition sma :: "real list \<Rightarrow> nat \<Rightarrow> real option" where
  "sma values period =
     (if length values < period then None
      else Some (foldl (\<lambda>sum val. sum + val) 0 (slice_last period values) / real period))"

text \<open>
  The loop of \<^verbatim>\<open>rsi\<close> runs over the indices \<open>length - period, ..., length - 1\<close>; the state
  is the pair \<open>(gains, losses)\<close>.
\<close>

definition rsi_step :: "real list \<Rightarrow> real \<times> real \<Rightarrow> nat \<Rightarrow> real \<times> real" where
  "rsi_step closes gl i =
     (let change = closes ! i - closes ! (i - 1) in
      if change > 0 then (fst gl + change, snd gl) else (fst gl, snd gl - change))"

definition rsi :: "real list \<Rightarrow> nat \<Rightarrow> real option" where
  "rsi closes period =
     (if length closes < period + 1 then None
      else
        let gl = foldl (rsi_step closes) (0, 0) [length closes - period ..< length closes];
            avgGain = fst gl / real period;
            avgLoss = snd gl / real period in
        if avgLoss = 0 then Some 100
        else
          let rs = avgGain / avgLoss in
          Some (100 - 100 / (1 + rs)))"

definition stochasticK :: "Candle list \<Rightarrow> nat \<Rightarrow> nat \<Rightarrow> real option" where
  "stochasticK candles kPeriod dPeriod =
     (if length candles < kPeriod then None
      else
        let slice = slice_last kPeriod candles;
            high = Math_max (map c_h slice);
            low = Math_min (map c_l slice);
            close = c_c (last candles) in
        if high = low then Some 50
        else Some ((close - low) / (high - low) * 100))"

definition true_range :: "Candle list \<Rightarrow> nat \<Rightarrow> real" where
  "true_range candles i =
     (let current = candles ! i; previous = candles ! (i - 1) in
      max (max (c_h current - c_l current) \<bar>c_h current - c_c previous\<bar>)
          \<bar>c_l current - c_c previous\<bar>)"

definition atr :: "Candle list \<Rightarrow> nat \<Rightarrow> real option" where
  "atr candles period =
     (if length candles < period + 1 then None
      else sma (map (true_range candles) [1 ..< length candles]) period)"

definition directional_move :: "Candle list \<Rightarrow> nat \<Rightarrow> real \<times> real" where
  "directional_move candles i =
     (let current = candles ! i; previous = candles ! (i - 1);
          upMove = c_h current - c_h previous;
          downMove = c_l previous - c_l current;
          plusDM = (if upMove > downMove \<and> upMove > 0 then upMove else 0);
          minusDM = (if downMove > upMove \<and> downMove > 0 then downMove else 0)
      in (plusDM, minusDM))"

definition adx :: "Candle list \<Rightarrow> nat \<Rightarrow> real option" where
  "adx candles period =
     (if length candles < period * 2 then None
      else
        let dms = map (directional_move candles) [1 ..< length candles];
            plusDI = or_else (sma (map fst dms) period) 0;
            minusDI = or_else (sma (map snd dms) period) 0 in
        if plusDI + minusDI = 0 then Some 0
        else Some (\<bar>plusDI - minusDI\<bar> / (plusDI + minusDI) * 100))"

record Bands =
  bb_upper :: real
  bb_lower :: real
  bb_middle :: real

definition bollingerBands :: "real list \<Rightarrow> nat \<Rightarrow> real \<Rightarrow> Bands option" where
  "bollingerBands closes period stdDev =
     (if length closes < period then None
      else
        case sma closes period of
          None \<Rightarrow> None
        | Some middle \<Rightarrow>
            let slice = slice_last period closes;
                variance = foldl (\<lambda>sum val. sum + (val - middle)\<^sup>2) 0 slice / real period;
                std = sqrt variance in
            Some \<lparr>bb_upper = middle + std * stdDev, bb_lower = middle - std * stdDev,
                  bb_middle = middle\<rparr>)"

text \<open>
  \<^verbatim>\<open>determineTrend\<close> divides by the first close of the window. Where that close is 0
  JavaScript's quotient is an infinity or \<^verbatim>\<open>NaN\<close>, and the two comparisons that follow
  are written out for it.
\<close>

definition determineTrend :: "Candle list \<Rightarrow> nat \<Rightarrow> Trend" where
  "determineTrend candles lookback =
     (if length candles < lookback then Sideways
      else
        let slice = slice_last lookback candles;
            firstClose = c_c (hd slice);
            lastClose = c_c (last slice) in
        if firstClose = 0 then
          (if lastClose - firstClose > 0 then Up
           else if lastClose - firstClose < 0 then Down
           else Sideways)
        else
          let change = (lastClose - firstClose) / firstClose in
          if change > 0.05 then Up
          else if change < - 0.05 then Down
          else Sideways)"

text \<open>
  \<^verbatim>\<open>calculateSRDistance\<close> divides by the last close, which is above 30 when the engine
  computes the indicators of a ticker.
\<close>

definition calculateSRDistance :: "Candle list \<Rightarrow> real \<Rightarrow> real option" where
  "calculateSRDistance candles proximityPct =
     (if length candles < 20 then None
      else
        let currentPrice = c_c (last candles);
            highs = map c_h (slice_last 20 candles);
            lows = map c_l (slice_last 20 candles);
            resistance = Math_max highs;
            support = Math_min lows;
            distanceToResistance = \<bar>currentPrice - resistance\<bar> / currentPrice * 100;
            distanceToSupport = \<bar>currentPrice - support\<bar> / currentPrice * 100 in
        Some (min distanceToResistance distanceToSupport))"

definition analyzeFibonacci :: "Candle list \<Rightarrow> string \<Rightarrow> string \<Rightarrow> bool \<times> bool" where
  "analyzeFibonacci candles reference zone =
     (if length candles < 50 then (False, False)
      else
        let slice = slice_last 50 candles;
            hi = Math_max (map c_h slice);
            lo = Math_min (map c_l slice);
            swingHigh = (if reference = ''swing_high_to_low'' then lo else hi);
            swingLow = (if reference = ''swing_high_to_low'' then hi else lo);
            rng = swingHigh - swingLow;
            currentPrice = c_c (last candles);
            fib382 = swingLow + rng * 0.382;
            fib50 = swingLow + rng * 0.5;
            fib618 = swingLow + rng * 0.618;
            fib127 = swingHigh + rng * 0.27;
            fib1618 = swingHigh + rng * 0.618;
            tolerance = rng * 0.01;
            hit =
              (if zone = ''38.2-50'' then
                 currentPrice \<ge> fib382 - tolerance \<and> currentPrice \<le> fib50 + tolerance
               else if zone = ''50-61.8'' then
                 currentPrice \<ge> fib50 - tolerance \<and> currentPrice \<le> fib618 + tolerance
               else if zone = ''38.2-61.8'' then
                 currentPrice \<ge> fib382 - tolerance \<and> currentPrice \<le> fib618 + tolerance
               else if zone = ''extension-127'' then \<bar>currentPrice - fib127\<bar> \<le> tolerance
               else if zone = ''extension-161.8'' then \<bar>currentPrice - fib1618\<bar> \<le> tolerance
               else if zone = ''*'' then True
               else False);
            bullishReaction =
              (hit \<and> length candles \<ge> 2 \<and>
               c_c (candles ! (length candles - 1)) > c_c (candles ! (length candles - 2)))
        in (hit, bullishReaction))"

section \<open>Leo methodology indicators (engine.ts)\<close>

definition detectCandlestickPattern :: "Candle list \<Rightarrow> real option \<Rightarrow> CandlestickPattern" where
  "detectCandlestickPattern candles atrValue =
     (if length candles < 2 \<or> \<not> truthy atrValue then No_pattern
      else
        let a = the atrValue;
            current = candles ! (length candles - 1);
            previous = candles ! (length candles - 2);
            body = \<bar>c_c current - c_o current\<bar>;
            rng = c_h current - c_l current;
            upperShadow = c_h current - max (c_o current) (c_c current);
            lowerShadow = min (c_o current) (c_c current) - c_l current;
            isBullish = (c_c current > c_o current);
            prevBody = \<bar>c_c previous - c_o previous\<bar>;
            prevIsBullish = (c_c previous > c_o previous) in
        if body < a * 0.1 \<and> rng > 0 then
          (if upperShadow \<ge> body * 2 \<and> lowerShadow < body * 0.5 then Gravestone_doji
           else Doji)
        else if lowerShadow \<ge> body * 2 \<and> upperShadow < body * 0.5 \<and> isBullish then Hammer
        else if rng > 0 \<and> lowerShadow > rng * 0.6 then Long_lower_shadow
        else if upperShadow \<ge> body * 2 \<and> lowerShadow < body * 0.5 \<and> \<not> isBullish
          then Shooting_star
        else if isBullish \<and> \<not> prevIsBullish \<and> body > prevBody \<and>
                c_o current \<le> c_c previous \<and> c_c current \<ge> c_o previous
          then Engulfing_bullish
        else if \<not> isBullish \<and> prevIsBullish \<and> body > prevBody \<and>
                c_o current \<ge> c_c previous \<and> c_c current \<le> c_o previous
          then Engulfing_bearish
        else No_pattern)"

definition volume_step :: "real \<times> real \<Rightarrow> Candle \<Rightarrow> real \<times> real" where
  "volume_step bs candle =
     (if c_c candle > c_o candle then (fst bs + c_v candle, snd bs)
      else if c_c candle < c_o candle then (fst bs, snd bs + c_v candle)
      else (fst bs + c_v candle / 2, snd bs + c_v candle / 2))"

definition analyzeVolumeShift :: "Candle list \<Rightarrow> nat \<Rightarrow> VolumeAnalysis" where
  "analyzeVolumeShift candles lookback =
     (if length candles < lookback
      then \<lparr>va_shift = Neutral, va_strength = 0, buyerVolume = 0, sellerVolume = 0\<rparr>
      else
        let recent = slice_last lookback candles;
            bs = foldl volume_step (0, 0) recent;
            total = fst bs + snd bs in
        if total = 0
        then \<lparr>va_shift = Neutral, va_strength = 0, buyerVolume = 0, sellerVolume = 0\<rparr>
        else
          let buyerRatio = fst bs / total in
          if buyerRatio > 0.6 then
            \<lparr>va_shift = Buyer, va_strength = min ((buyerRatio - 0.5) * 200) 100,
             buyerVolume = fst bs, sellerVolume = snd bs\<rparr>
          else if buyerRatio < 0.4 then
            \<lparr>va_shift = Seller, va_strength = min ((0.5 - buyerRatio) * 200) 100,
             buyerVolume = fst bs, sellerVolume = snd bs\<rparr>
          else
            \<lparr>va_shift = Neutral, va_strength = 0, buyerVolume = fst bs, sellerVolume = snd bs\<rparr>)"

definition fvg_step :: "Candle list \<Rightarrow> real \<Rightarrow> FVGZone list \<Rightarrow> nat \<Rightarrow> FVGZone list" where
  "fvg_step recentCandles currentPrice fvgs i =
     (let prev = recentCandles ! (i - 2);
          current = recentCandles ! i;
          fvgs1 =
            (if c_l current > c_h prev then
               fvgs @ [\<lparr>fvg_type = Bullish, topPrice = c_l current, bottomPrice = c_h prev,
                        midpoint = (c_l current + c_h prev) / 2,
                        startDate = c_t prev, endDate = c_t current,
                        isFilled = (currentPrice \<le> c_l current \<and> currentPrice \<ge> c_h prev)\<rparr>]
             else fvgs) in
      if c_h current < c_l prev then
        fvgs1 @ [\<lparr>fvg_type = Bearish, topPrice = c_l prev, bottomPrice = c_h current,
                  midpoint = (c_l prev + c_h current) / 2,
                  startDate = c_t prev, endDate = c_t current,
                  isFilled = (currentPrice \<ge> c_h current \<and> currentPrice \<le> c_l prev)\<rparr>]
      else fvgs1)"

definition detectFVGs :: "Candle list \<Rightarrow> nat \<Rightarrow> FVGZone list" where
  "detectFVGs candles lookback =
     (if length candles < lookback + 2 then []
      else
        let recentCandles = slice_last (lookback + 2) candles;
            currentPrice = c_c (last candles) in
        foldl (fvg_step recentCandles currentPrice) [] [2 ..< length recentCandles])"

text \<open>
  \<^verbatim>\<open>detectSwingPoints\<close>: the inner loop over \<open>j = 1, ..., strength\<close> clears the two flags,
  the outer loop over the bars that have \<open>strength\<close> bars on either side pushes the points.
\<close>

definition swing_flags :: "Candle list \<Rightarrow> nat \<Rightarrow> bool \<times> bool \<Rightarrow> nat \<Rightarrow> bool \<times> bool" where
  "swing_flags candles i flags j =
     (let candle = candles ! i in
      ((if c_h (candles ! (i - j)) \<ge> c_h candle \<or> c_h (candles ! (i + j)) \<ge> c_h candle
        then False else fst flags),
       (if c_l (candles ! (i - j)) \<le> c_l candle \<or> c_l (candles ! (i + j)) \<le> c_l candle
        then False else snd flags)))"

definition swing_step ::
  "Candle list \<Rightarrow> nat \<Rightarrow> SwingPoint list \<times> SwingPoint list \<Rightarrow> nat
    \<Rightarrow> SwingPoint list \<times> SwingPoint list" where
  "swing_step candles str hl i =
     (let candle = candles ! i;
          flags = foldl (swing_flags candles i) (True, True) [1 ..< str + 1];
          highs = (if fst flags
                   then fst hl @ [\<lparr>sp_date = c_t candle, sp_price = c_h candle,
                                    sp_high = True, sp_strength = str\<rparr>]
                   else fst hl);
          lows = (if snd flags
                  then snd hl @ [\<lparr>sp_date = c_t candle, sp_price = c_l candle,
                                   sp_high = False, sp_strength = str\<rparr>]
                  else snd hl)
      in (highs, lows))"

definition detectSwingPoints :: "Candle list \<Rightarrow> nat \<Rightarrow> SwingPoint list \<times> SwingPoint list" where
  "detectSwingPoints candles str =
     (if length candles < str * 2 + 1 then ([], [])
      else foldl (swing_step candles str) ([], []) [str ..< length candles - str])"

record BandsExt = Bands +
  percentB :: real

definition bollingerBandsExtended :: "real list \<Rightarrow> nat \<Rightarrow> real \<Rightarrow> BandsExt option" where
  "bollingerBandsExtended closes period stdDevMult =
     (if length closes < period then None
      else
        case sma closes period of
          None \<Rightarrow> None
        | Some middle \<Rightarrow>
            let slice = slice_last period closes;
                variance = foldl (\<lambda>sum val. sum + (val - middle)\<^sup>2) 0 slice / real period;
                std = sqrt variance;
                upper = middle + std * stdDevMult;
                lower = middle - std * stdDevMult;
                currentPrice = last closes;
                pB = (if upper \<noteq> lower then (currentPrice - lower) / (upper - lower) else 0.5)
            in Some \<lparr>bb_upper = upper, bb_lower = lower, bb_middle = middle, percentB = pB\<rparr>)"

definition checkEntryConfirmation :: "Candle list \<Rightarrow> bool" where
  "checkEntryConfirmation candles =
     (if length candles < 2 then False
      else
        let current = candles ! (length candles - 1);
            previous = candles ! (length candles - 2) in
        c_c current > c_h previous)"

text \<open>
  \<^verbatim>\<open>checkEarningsWarning\<close> reads the clock; an empty date string is falsy, and a string
  that is no date gives \<^verbatim>\<open>NaN\<close> days, for which both comparisons are false.
\<close>

definition checkEarningsWarning :: "Env \<Rightarrow> TickerMeta \<Rightarrow> real \<Rightarrow> bool" where
  "checkEarningsWarning env meta warningDays =
     (case nextEarningsDate meta of
        None \<Rightarrow> False
      | Some d \<Rightarrow>
          if d = [] then False
          else
            (case daysFromNow env d of
               None \<Rightarrow> False
             | Some diffDays \<Rightarrow> diffDays \<ge> 0 \<and> diffDays \<le> warningDays))"

section \<open>The indicator snapshot (engine.ts)\<close>

text \<open>
  \<^verbatim>\<open>calculateIndicators\<close> fills the standard indicators, and the Leo indicators when Leo
  mode is enabled. The two lookbacks are positive integers once the parameters are
  validated.
\<close>

definition calculateIndicators ::
  "Env \<Rightarrow> Candle list \<Rightarrow> ScreenerParams \<Rightarrow> TickerMeta option \<Rightarrow> Indicators" where
  "calculateIndicators env candles p meta =
     (let closes = map c_c candles;
          volumes = map c_v candles;
          highs = map c_h candles;
          lows = map c_l candles;
          s20 = sma closes 20;
          av20 = sma volumes 20;
          bb = bollingerBands closes 20 2;
          fibResult = analyzeFibonacci candles (fib_reference p) (fib_zone p);
          atrv = atr candles (nat \<lfloor>atr_lookback p\<rfloor>);
          ind =
            no_indicators
              \<lparr>sma20 := s20,
               sma50 := sma closes 50,
               sma200 := sma closes 200,
               rsi14 := rsi closes 14,
               stochK := stochasticK candles 14 3,
               atr_val := atrv,
               adx14 := adx candles 14,
               avgVol20 := av20,
               relVol := (if truthy av20 then Some (c_v (last candles) / the av20) else None),
               hh20 := Some (Math_max (slice_last 20 highs)),
               ll20 := Some (Math_min (slice_last 20 lows)),
               bbWidth :=
                 (case bb of
                    None \<Rightarrow> None
                  | Some b \<Rightarrow>
                      if truthy s20 then Some ((bb_upper b - bb_lower b) / the s20) else None),
               trend := Some (determineTrend candles (nat \<lfloor>trend_lookback p\<rfloor>)),
               srDistancePct := calculateSRDistance candles (sr_proximity_pct p),
               fibHit := Some (fst fibResult),
               reactionBullish := Some (snd fibResult)\<rparr>
      in
      if leo_mode_enabled p then
        let bbExt = bollingerBandsExtended closes 20 2;
            volumeAnalysis = analyzeVolumeShift candles 5;
            swingPoints = detectSwingPoints candles 3 in
        ind
          \<lparr>bbUpper := map_option bb_upper bbExt,
           bbLower := map_option bb_lower bbExt,
           bbMiddle := map_option bb_middle bbExt,
           bbPercentB := map_option percentB bbExt,
           candlestickPattern := Some (detectCandlestickPattern candles atrv),
           volumeShift := Some (va_shift volumeAnalysis),
           volumeShiftStrength := Some (va_strength volumeAnalysis),
           fvgZones := Some (detectFVGs candles 20),
           swingHighs := Some (fst swingPoints),
           swingLows := Some (snd swingPoints),
           entryConfirmed := Some (checkEntryConfirmation candles),
           earningsWithin30Days :=
             (case meta of
                None \<Rightarrow> None
              | Some m \<Rightarrow> Some (checkEarningsWarning env m (earnings_warning_days p)))\<rparr>
      else ind)"

section \<open>Filter pipeline (engine.ts)\<close>

text \<open>
  \<^verbatim>\<open>passesFixedFilters\<close>: the bar count, then the last close, the 20-bar average volume
  and the relative volume, each against its constant of \<open>FIXED_FILTERS\<close>. The last bar is
  read after the bar count was checked, so the list is not empty there.
\<close>

definition passesFixedFilters :: "Candle list \<Rightarrow> TickerMeta \<Rightarrow> bool" where
  "passesFixedFilters candles meta =
     (if real (length candles) < minBars FIXED_FILTERS then False
      else
        let lastCandle = last candles in
        if c_c lastCandle \<le> minPrice FIXED_FILTERS then False
        else
          let last20 = slice_last 20 candles;
              avgVol20 = foldl (\<lambda>sum c. sum + c_v c) 0 last20 / real (length last20) in
          if avgVol20 < minAvgVol20 FIXED_FILTERS then False
          else
            let relVol = c_v lastCandle / avgVol20 in
            if relVol < minRelativeVol FIXED_FILTERS then False
            else True)"

definition passesUserFilters :: "TickerMeta \<Rightarrow> ScreenerParams \<Rightarrow> bool" where
  "passesUserFilters meta p =
     (if user_sector p \<noteq> ''*'' \<and> sector meta \<noteq> Some (user_sector p) then False
      else if user_industry p \<noteq> ''*'' \<and> industry meta \<noteq> Some (user_industry p) then False
      else
        let cap = or_else (marketCap meta) 0 in
        if cap < market_cap_min p \<or> cap > market_cap_max p then False
        else True)"

definition isTickerInIndices :: "Env \<Rightarrow> string \<Rightarrow> IndexName list \<Rightarrow> bool" where
  "isTickerInIndices env tk indexFilters =
     (if length indexFilters = 0 then True
      else
        let upperTicker = toUpperCase env tk in
        list_ex (\<lambda>idx. upperTicker \<in> set (INDEX_CONSTITUENTS env idx)) indexFilters)"

definition trend_name :: "Trend \<Rightarrow> string" where
  "trend_name tr = (case tr of Up \<Rightarrow> ''up'' | Down \<Rightarrow> ''down'' | Sideways \<Rightarrow> ''sideways'')"

text \<open>In \<^verbatim>\<open>passesIndicatorFilters\<close> a value of \<open>ma_cross\<close> that no \<^verbatim>\<open>case\<close> names falls through.\<close>

definition passesIndicatorFilters :: "Indicators \<Rightarrow> ScreenerParams \<Rightarrow> bool" where
  "passesIndicatorFilters indicators p =
     (if (case rsi14 indicators of
            None \<Rightarrow> True
          | Some r \<Rightarrow> r < rsi_min p \<or> r > rsi_max p) then False
      else if \<not> leo_mode_enabled p \<and>
              (case stochK indicators of
                 None \<Rightarrow> True
               | Some k \<Rightarrow> k < stoch_k_min p \<or> k > stoch_k_max p) then False
      else if trend_type p \<noteq> ''*'' \<and> map_option trend_name (trend indicators) \<noteq> Some (trend_type p)
        then False
      else if (case adx14 indicators of None \<Rightarrow> True | Some a \<Rightarrow> a < adx_min p) then False
      else if ma_cross p \<noteq> ''none'' \<and>
              (case (sma20 indicators, sma50 indicators, sma200 indicators) of
                 (Some s20, Some s50, Some s200) \<Rightarrow>
                   (if ma_cross p = ''20>50'' then s20 \<le> s50
                    else if ma_cross p = ''50>200'' then s50 \<le> s200
                    else if ma_cross p = ''20>200'' then s20 \<le> s200
                    else False)
               | _ \<Rightarrow> True) then False
      else if (case srDistancePct indicators of
                 None \<Rightarrow> False
               | Some d \<Rightarrow> d > sr_proximity_pct p) then False
      else True)"

section \<open>Classification (engine.ts)\<close>

text \<open>
  The predicates and scores read the last bar; \<^verbatim>\<open>runEngine\<close> calls them on lists of at
  least 250 bars only.
\<close>

definition isBreakout :: "Candle list \<Rightarrow> Indicators \<Rightarrow> bool" where
  "isBreakout candles indicators =
     (if \<not> truthy (hh20 indicators) \<or> \<not> truthy (ll20 indicators) then False
      else
        let currentPrice = c_c (last candles);
            volume = c_v (last candles);
            avgVol = or_else (avgVol20 indicators) 0 in
        currentPrice > the (hh20 indicators) \<and> volume > avgVol * 1.5)"

definition isMomentum :: "Candle list \<Rightarrow> Indicators \<Rightarrow> bool" where
  "isMomentum candles indicators =
     (case (rsi14 indicators, adx14 indicators) of
        (Some r, Some a) \<Rightarrow> r > 60 \<and> a > 25 \<and> trend indicators = Some Up
      | _ \<Rightarrow> False)"

definition isPullback :: "Candle list \<Rightarrow> Indicators \<Rightarrow> bool" where
  "isPullback candles indicators =
     (case rsi14 indicators of
        None \<Rightarrow> False
      | Some r \<Rightarrow>
          if \<not> truthy (sma20 indicators) then False
          else
            let currentPrice = c_c (last candles) in
            trend indicators = Some Up \<and> currentPrice \<le> the (sma20 indicators) * 1.02 \<and>
            r < 50 \<and> r > 30)"

definition isConsolidation :: "Candle list \<Rightarrow> Indicators \<Rightarrow> bool" where
  "isConsolidation candles indicators =
     (case (bbWidth indicators, adx14 indicators) of
        (Some w, Some a) \<Rightarrow> w < 0.1 \<and> a < 20
      | _ \<Rightarrow> False)"

definition isReversal :: "Candle list \<Rightarrow> Indicators \<Rightarrow> bool" where
  "isReversal candles indicators =
     (case (rsi14 indicators, srDistancePct indicators) of
        (Some r, Some d) \<Rightarrow>
          ((r < 30 \<and> trend indicators = Some Down) \<or> (r > 70 \<and> trend indicators = Some Up)) \<and>
          d < 2
      | _ \<Rightarrow> False)"

text \<open>
  \<^verbatim>\<open>calculatePullbackScore\<close> divides by \<^verbatim>\<open>sma20 || 0\<close>. Where that is 0 the quotient is
  an infinity, the last close being above 30 when the engine scores a ticker, and
  \<^verbatim>\<open>Math.max(0, 100 - Infinity)\<close> is 0.
\<close>

definition calculateBreakoutScore :: "Candle list \<Rightarrow> Indicators \<Rightarrow> real" where
  "calculateBreakoutScore candles indicators =
     (let volume = c_v (last candles);
          avgVol = or_else (avgVol20 indicators) 1;
          rv = volume / avgVol in
      min (rv * 10) 100)"

definition calculateMomentumScore :: "Candle list \<Rightarrow> Indicators \<Rightarrow> real" where
  "calculateMomentumScore candles indicators =
     (let r = or_else (rsi14 indicators) 50;
          a = or_else (adx14 indicators) 0 in
      (r - 50) + a)"

definition calculatePullbackScore :: "Candle list \<Rightarrow> Indicators \<Rightarrow> real" where
  "calculatePullbackScore candles indicators =
     (let r = or_else (rsi14 indicators) 50;
          s20 = or_else (sma20 indicators) 0;
          currentPrice = c_c (last candles);
          priceScore =
            (if s20 = 0 then 0 else max 0 (100 - \<bar>currentPrice - s20\<bar> / s20 * 100));
          rsiScore = max 0 (50 - r) in
      priceScore + rsiScore)"

definition calculateFibPullbackScore :: "Candle list \<Rightarrow> Indicators \<Rightarrow> real" where
  "calculateFibPullbackScore candles indicators = calculatePullbackScore candles indicators * 1.2"

definition calculateConsolidationScore :: "Candle list \<Rightarrow> Indicators \<Rightarrow> real" where
  "calculateConsolidationScore candles indicators =
     (let w = or_else (bbWidth indicators) 1;
          a = or_else (adx14 indicators) 50 in
      max 0 (100 - w * 1000) + max 0 (50 - a))"

definition calculateReversalScore :: "Candle list \<Rightarrow> Indicators \<Rightarrow> real" where
  "calculateReversalScore candles indicators =
     (let r = or_else (rsi14 indicators) 50;
          srDistance = or_else (srDistancePct indicators) 10;
          rsiExtreme = max 0 (\<bar>r - 50\<bar> - 20);
          proximityScore = max 0 (10 - srDistance) * 10 in
      rsiExtreme + proximityScore)"

definition calculateLeoReversalScore :: "Indicators \<Rightarrow> FVGType \<Rightarrow> real \<Rightarrow> real" where
  "calculateLeoReversalScore indicators direction volumeStrength =
     (let score0 = 70;
          score1 =
            (case bbPercentB indicators of
               None \<Rightarrow> score0
             | Some b \<Rightarrow>
                 if direction = Bullish then score0 + (0.2 - b) * 50
                 else score0 + (b - 0.8) * 50);
          score2 =
            (case stochK indicators of
               None \<Rightarrow> score1
             | Some k \<Rightarrow>
                 if direction = Bullish then score1 + (30 - k) / 2
                 else score1 + (k - 70) / 2);
          score3 = score2 + volumeStrength * 0.2;
          score4 = (if is_true (entryConfirmed indicators) then score3 + 10 else score3)
      in min score4 100)"

text \<open>
  \<^verbatim>\<open>classifyLeoReversal\<close>: the block of the bullish zone, then the block of the
  bearish zone. Inside a block the pattern branch is tried first and falls through to
  the stochastic branch; a block that returns nothing falls through to what follows.
\<close>

definition classifyLeoReversal ::
  "Candle list \<Rightarrow> Indicators \<Rightarrow> ScreenerParams \<Rightarrow> (SetupReason \<times> real) option" where
  "classifyLeoReversal candles indicators p =
     (if \<not> leo_mode_enabled p then None
      else
        let bb = bbPercentB indicators;
            sk = stochK indicators;
            pattern = candlestickPattern indicators;
            vShift = volumeShift indicators;
            volumeStrength = or_else (volumeShiftStrength indicators) 0;
            patternMatches =
              (length (candlestick_patterns p) = 0 \<or>
               (case pattern of
                  None \<Rightarrow> False
                | Some pt \<Rightarrow> pt \<in> set (candlestick_patterns p)));
            hasBullishPattern =
              (case pattern of
                 None \<Rightarrow> False
               | Some pt \<Rightarrow> pt \<in> set [Doji, Hammer, Long_lower_shadow, Engulfing_bullish]);
            hasBearishPattern =
              (case pattern of
                 None \<Rightarrow> False
               | Some pt \<Rightarrow> pt \<in> set [Gravestone_doji, Shooting_star, Engulfing_bearish]);
            bullishZone =
              (case (bb, sk) of
                 (Some b, Some k) \<Rightarrow> b < 0.2 \<and> k < stoch_oversold_threshold p
               | _ \<Rightarrow> False);
            bearishZone =
              (case (bb, sk) of
                 (Some b, Some k) \<Rightarrow> b > 0.8 \<and> k > stoch_overbought_threshold p
               | _ \<Rightarrow> False);
            bullish =
              (if bullishZone then
                 (case (if hasBullishPattern \<and> patternMatches then
                          (if vShift = Some Buyer \<and>
                              (\<not> require_volume_shift p \<or> volumeStrength > 30)
                           then Some (Reversal_Accumulation,
                                      calculateLeoReversalScore indicators Bullish volumeStrength)
                           else if bb_bounce_enabled p
                           then Some (BB_Lower_Bounce, 75 + (100 - the bb * 100))
                           else None)
                        else None) of
                    Some r \<Rightarrow> Some r
                  | None \<Rightarrow>
                      if the sk < 20 then Some (Stoch_Oversold_Reversal, 65 + (20 - the sk))
                      else None)
               else None);
            bearish =
              (if bearishZone then
                 (case (if hasBearishPattern \<and> patternMatches then
                          (if vShift = Some Seller \<and>
                              (\<not> require_volume_shift p \<or> volumeStrength > 30)
                           then Some (Reversal_Distribution,
                                      calculateLeoReversalScore indicators Bearish volumeStrength)
                           else if bb_bounce_enabled p
                           then Some (BB_Upper_Reject, 75 + (the bb - 0.8) * 500)
                           else None)
                        else None) of
                    Some r \<Rightarrow> Some r
                  | None \<Rightarrow>
                      if the sk > 80 then Some (Stoch_Overbought_Reversal, 65 + (the sk - 80))
                      else None)
               else None)
        in
        case bullish of
          Some r \<Rightarrow> Some r
        | None \<Rightarrow> bearish)"

definition classifySetup ::
  "Candle list \<Rightarrow> Indicators \<Rightarrow> ScreenerParams \<Rightarrow> (SetupReason \<times> real) option" where
  "classifySetup candles indicators p =
     (case (if leo_mode_enabled p then classifyLeoReversal candles indicators p else None) of
        Some leoResult \<Rightarrow> Some leoResult
      | None \<Rightarrow>
          if isBreakout candles indicators
          then Some (Breakout, calculateBreakoutScore candles indicators)
          else if isMomentum candles indicators
          then Some (Momentum, calculateMomentumScore candles indicators)
          else if is_true (fibHit indicators) \<and> is_true (reactionBullish indicators)
          then Some (Fib_Pullback, calculateFibPullbackScore candles indicators)
          else if isPullback candles indicators
          then Some (Pullback, calculatePullbackScore candles indicators)
          else if isConsolidation candles indicators
          then Some (Consolidation, calculateConsolidationScore candles indicators)
          else if isReversal candles indicators
          then Some (Reversal, calculateReversalScore candles indicators)
          else None)"

section \<open>Price targets (engine.ts)\<close>

definition fvg_target_step :: "real \<Rightarrow> PriceTarget list \<Rightarrow> FVGZone \<Rightarrow> PriceTarget list" where
  "fvg_target_step currentPrice targets fvg =
     (if \<not> isFilled fvg then
        (if fvg_type fvg = Bullish \<and> midpoint fvg > currentPrice then
           targets @ [\<lparr>pt_type = Fvg, pt_price = midpoint fvg,
                       pt_description = FVG_retracement, pt_confidence = 80\<rparr>]
         else if fvg_type fvg = Bearish \<and> midpoint fvg < currentPrice then
           targets @ [\<lparr>pt_type = Fvg, pt_price = midpoint fvg,
                       pt_description = FVG_retracement, pt_confidence = 80\<rparr>]
         else targets)
      else targets)"

definition swing_target_step :: "real \<Rightarrow> PriceTarget list \<Rightarrow> SwingPoint \<Rightarrow> PriceTarget list" where
  "swing_target_step currentPrice targets high =
     (if sp_price high > currentPrice then
        targets @ [\<lparr>pt_type = Swing, pt_price = sp_price high,
                    pt_description = Previous_swing_high (sp_date high), pt_confidence = 70\<rparr>]
      else targets)"

text \<open>
  \<^verbatim>\<open>targets.sort((a, b) => a.price - b.price)\<close> is a stable sort by ascending price,
  which is what \<^const>\<open>sort_key\<close> is.
\<close>

definition calculatePriceTargetsFromIndicators :: "Candle list \<Rightarrow> Indicators \<Rightarrow> PriceTarget list" where
  "calculatePriceTargetsFromIndicators candles indicators =
     (if length candles < 20 then []
      else
        let currentPrice = c_c (last candles);
            targets1 =
              (case fvgZones indicators of
                 None \<Rightarrow> []
               | Some zones \<Rightarrow> foldl (fvg_target_step currentPrice) [] zones);
            targets2 =
              (case swingHighs indicators of
                 None \<Rightarrow> targets1
               | Some highs \<Rightarrow> foldl (swing_target_step currentPrice) targets1 (slice_last 3 highs));
            targets3 =
              targets2 @ [\<lparr>pt_type = Percentage, pt_price = currentPrice * 1.10,
                           pt_description = Maximum_realistic_target, pt_confidence = 50\<rparr>]
        in take 5 (sort_key pt_price targets3))"

section \<open>Validation (contract.ts)\<close>

text \<open>
  Each \<^verbatim>\<open>throw new Error(...)\<close> of the source is a value of \<open>error\<close>, one constructor per
  message.
\<close>

datatype error =
    FIXED_FILTERS_mismatch
  | Bad_as_of_date
  | Bad_market_cap
  | Bad_RSI_bounds
  | Bad_Stochastic_bounds
  | Bad_trend_lookback
  | Bad_max_results
  | Bad_sr_proximity_pct
  | Bad_adx_min
  | Bad_atr_lookback
  | Bad_ma_cross
  | Bad_trend_type
  | Bad_fib_reference
  | Bad_fib_zone

definition assertFixedFilters :: "error + unit" where
  "assertFixedFilters =
     (if minPrice FIXED_FILTERS \<noteq> 30 \<or> minAvgVol20 FIXED_FILTERS \<noteq> 1000000 \<or>
         minRelativeVol FIXED_FILTERS \<noteq> 1 \<or> minBars FIXED_FILTERS \<noteq> 250
      then Inl FIXED_FILTERS_mismatch
      else Inr ())"

text \<open>The regular expression \<^verbatim>\<open>/^\d{4}-\d{2}-\d{2}$/\<close>: ten characters, digits and two hyphens.\<close>

definition is_digit :: "char \<Rightarrow> bool" where
  "is_digit ch = (ch \<in> set ''0123456789'')"

definition matches_iso_date :: "string \<Rightarrow> bool" where
  "matches_iso_date s =
     (case s of
        [y1, y2, y3, y4, h1, m1, m2, h2, d1, d2] \<Rightarrow>
          is_digit y1 \<and> is_digit y2 \<and> is_digit y3 \<and> is_digit y4 \<and> h1 = CHR ''-'' \<and>
          is_digit m1 \<and> is_digit m2 \<and> h2 = CHR ''-'' \<and> is_digit d1 \<and> is_digit d2
      | _ \<Rightarrow> False)"

text \<open>
  \<^verbatim>\<open>inRange\<close> and \<^verbatim>\<open>Number.isInteger\<close>; \<^verbatim>\<open>Number.isFinite\<close> holds of every real.
\<close>

definition inRange :: "real \<Rightarrow> real \<Rightarrow> real \<Rightarrow> bool" where
  "inRange x a b = (x \<ge> a \<and> x \<le> b)"

definition isInteger :: "real \<Rightarrow> bool" where
  "isInteger x = (real_of_int \<lfloor>x\<rfloor> = x)"

text \<open>
  \<^verbatim>\<open>key in table\<close> for an object literal \<open>table\<close>: true of the literal's own keys and of the
  property names every object inherits from \<^verbatim>\<open>Object.prototype\<close>.
\<close>

definition Object_prototype_keys :: "string list" where
  "Object_prototype_keys =
     [''constructor'', ''hasOwnProperty'', ''isPrototypeOf'', ''propertyIsEnumerable'',
      ''toLocaleString'', ''toString'', ''valueOf'', ''__proto__'',
      ''__defineGetter__'', ''__defineSetter__'', ''__lookupGetter__'', ''__lookupSetter__'']"

definition js_in :: "string \<Rightarrow> string list \<Rightarrow> bool" where
  "js_in k own_keys = (k \<in> set own_keys \<or> k \<in> set Object_prototype_keys)"

definition maSet :: "string list" where
  "maSet = [''20>50'', ''50>200'', ''20>200'', ''none'']"

definition trendSet :: "string list" where
  "trendSet = [''up'', ''down'', ''sideways'', ''*'']"

definition fibRefSet :: "string list" where
  "fibRefSet = [''swing_high_to_low'', ''swing_low_to_high'']"

definition fibZoneSet :: "string list" where
  "fibZoneSet = [''38.2-50'', ''50-61.8'', ''38.2-61.8'', ''extension-127'', ''extension-161.8'', ''*'']"

text \<open>
  \<^verbatim>\<open>validateParams\<close> on a complete parameter object, for which the merge over
  \<^verbatim>\<open>DEFAULT_PARAMS\<close> changes nothing. The checks run in the source's order; the first
  that fails throws.
\<close>

definition validateParams :: "ScreenerParams \<Rightarrow> error + ScreenerParams" where
  "validateParams m =
     (if \<not> matches_iso_date (as_of_date m) then Inl Bad_as_of_date
      else if market_cap_min m > market_cap_max m then Inl Bad_market_cap
      else if \<not> inRange (rsi_min m) 0 100 \<or> \<not> inRange (rsi_max m) 0 100 \<or> rsi_min m > rsi_max m
        then Inl Bad_RSI_bounds
      else if \<not> inRange (stoch_k_min m) 0 100 \<or> \<not> inRange (stoch_k_max m) 0 100 \<or>
              stoch_k_min m > stoch_k_max m
        then Inl Bad_Stochastic_bounds
      else if \<not> isInteger (trend_lookback m) \<or> trend_lookback m \<le> 0 then Inl Bad_trend_lookback
      else if \<not> isInteger (max_results m) \<or> max_results m \<le> 0 then Inl Bad_max_results
      else if sr_proximity_pct m < 0 then Inl Bad_sr_proximity_pct
      else if adx_min m < 0 then Inl Bad_adx_min
      else if atr_lookback m \<le> 0 \<or> \<not> isInteger (atr_lookback m) then Inl Bad_atr_lookback
      else if \<not> js_in (ma_cross m) maSet then Inl Bad_ma_cross
      else if \<not> js_in (trend_type m) trendSet then Inl Bad_trend_type
      else if \<not> js_in (fib_reference m) fibRefSet then Inl Bad_fib_reference
      else if \<not> js_in (fib_zone m) fibZoneSet then Inl Bad_fib_zone
      else Inr m)"

section \<open>Ranking and assembly (engine.ts, runEngine)\<close>

text \<open>
  One pass of the loop over \<^verbatim>\<open>Object.entries(timeseries)\<close>: every \<^verbatim>\<open>continue\<close> is \<open>None\<close>.
\<close>

definition analyseTicker ::
  "Env \<Rightarrow> ScreenerParams \<Rightarrow> (string \<rightharpoonup> TickerMeta) \<Rightarrow> string \<Rightarrow> Candle list
    \<Rightarrow> StockAnalysis option" where
  "analyseTicker env p md tk candles =
     (case md tk of
        None \<Rightarrow> None
      | Some meta \<Rightarrow>
          if real (length candles) < minBars FIXED_FILTERS then None
          else if \<not> passesFixedFilters candles meta then None
          else if \<not> passesUserFilters meta p then None
          else if leo_mode_enabled p \<and> c_c (last candles) < min_price_leo p then None
          else if leo_mode_enabled p \<and> length (index_filters p) > 0 \<and>
                  \<not> isTickerInIndices env tk (index_filters p) then None
          else
            let indicators = calculateIndicators env candles p (Some meta) in
            if \<not> passesIndicatorFilters indicators p then None
            else
              (case classifySetup candles indicators p of
                 None \<Rightarrow> None
               | Some setupResult \<Rightarrow>
                   Some \<lparr>sa_ticker = tk, sa_meta = meta, sa_candles = candles,
                         sa_indicators = indicators, setupReason = fst setupResult,
                         score = snd setupResult\<rparr>))"

definition analyse_step ::
  "Env \<Rightarrow> ScreenerParams \<Rightarrow> (string \<rightharpoonup> TickerMeta) \<Rightarrow> StockAnalysis list
    \<Rightarrow> string \<times> Candle list \<Rightarrow> StockAnalysis list" where
  "analyse_step env p md analyses entry =
     (case analyseTicker env p md (fst entry) (snd entry) of
        None \<Rightarrow> analyses
      | Some a \<Rightarrow> analyses @ [a])"

text \<open>
  \<open>setupGroups\<close> is a table from each of the twelve reasons to its list, filled by pushing
  every analysis onto the list of its reason.
\<close>

definition group_step ::
  "(SetupReason \<Rightarrow> StockAnalysis list) \<Rightarrow> StockAnalysis \<Rightarrow> (SetupReason \<Rightarrow> StockAnalysis list)" where
  "group_step groups a = groups(setupReason a := groups (setupReason a) @ [a])"

definition setupGroups :: "StockAnalysis list \<Rightarrow> SetupReason \<Rightarrow> StockAnalysis list" where
  "setupGroups analyses = foldl group_step (\<lambda>reason. []) analyses"

text \<open>
  \<^verbatim>\<open>group.sort((a, b) => b.score - a.score)\<close>: a stable sort by descending score, that is
  by ascending negated score.
\<close>

definition sortGroups ::
  "(SetupReason \<Rightarrow> StockAnalysis list) \<Rightarrow> SetupReason \<Rightarrow> StockAnalysis list" where
  "sortGroups groups = (\<lambda>reason. sort_key (\<lambda>a. - score a) (groups reason))"

definition priorityOrder :: "ScreenerParams \<Rightarrow> SetupReason list" where
  "priorityOrder p =
     (if leo_mode_enabled p then
        [Reversal_Accumulation, BB_Lower_Bounce, Stoch_Oversold_Reversal,
         Reversal_Distribution, BB_Upper_Reject, Stoch_Overbought_Reversal,
         Breakout, Momentum, Pullback, Fib_Pullback, Consolidation, Reversal]
      else
        [Breakout, Momentum, Pullback, Fib_Pullback, Consolidation, Reversal,
         Reversal_Accumulation, Reversal_Distribution, BB_Lower_Bounce,
         BB_Upper_Reject, Stoch_Oversold_Reversal, Stoch_Overbought_Reversal])"

text \<open>
  The merge loop: \<open>remaining\<close> starts at \<open>max_results\<close>, an integer once validated; the
  loop breaks when nothing remains.
\<close>

fun mergeGroups ::
  "(SetupReason \<Rightarrow> StockAnalysis list) \<Rightarrow> SetupReason list \<Rightarrow> int \<Rightarrow> StockAnalysis list
    \<Rightarrow> StockAnalysis list" where
  "mergeGroups groups [] remaining finalPicks = finalPicks"
| "mergeGroups groups (reason # rest) remaining finalPicks =
     (let grp = groups reason;
          tk = min (int (length grp)) remaining;
          finalPicks' = finalPicks @ slice_to tk grp;
          remaining' = remaining - tk in
      if remaining' \<le> 0 then finalPicks'
      else mergeGroups groups rest remaining' finalPicks')"

definition num_or_null :: "real option \<Rightarrow> real option" where
  "num_or_null x = (if truthy x then x else None)"

definition str_or_null :: "string option \<Rightarrow> string option" where
  "str_or_null x = (case x of None \<Rightarrow> None | Some s \<Rightarrow> if s = [] then None else Some s)"

definition bool_or_null :: "bool option \<Rightarrow> bool option" where
  "bool_or_null x = (if is_true x then Some True else None)"

definition toPick :: "ScreenerParams \<Rightarrow> StockAnalysis \<Rightarrow> ClassifiedPick" where
  "toPick p analysis =
     (let ind = sa_indicators analysis;
          lastCandle = last (sa_candles analysis);
          bbPosition =
            (case bbPercentB ind of
               None \<Rightarrow> None
             | Some b \<Rightarrow>
                 if b < 0.1 then Some Lower_bounce
                 else if b > 0.9 then Some Upper_reject
                 else Some Middle);
          stochPosition =
            (case stochK ind of
               None \<Rightarrow> None
             | Some k \<Rightarrow>
                 if k < stoch_oversold_threshold p then Some Oversold
                 else if k > stoch_overbought_threshold p then Some Overbought
                 else Some Stoch_neutral)
      in
      \<lparr>Ticker = sa_ticker analysis,
       Company = str_or_null (company (sa_meta analysis)),
       Price = c_c lastCandle,
       MarketCap = num_or_null (marketCap (sa_meta analysis)),
       Volume = c_v lastCandle,
       RelativeVolume = or_else (relVol ind) 0,
       RSI = or_else (rsi14 ind) 0,
       Sector = str_or_null (sector (sa_meta analysis)),
       Trend = (case trend ind of None \<Rightarrow> Sideways | Some tr \<Rightarrow> tr),
       NextEarningsDate = str_or_null (nextEarningsDate (sa_meta analysis)),
       SelectionReason = setupReason analysis,
       CandlestickPattern = candlestickPattern ind,
       VolumeShift = volumeShift ind,
       VolumeShiftStrength = num_or_null (volumeShiftStrength ind),
       BBPosition = bbPosition,
       BBPercentB = num_or_null (bbPercentB ind),
       StochPosition = stochPosition,
       StochK = num_or_null (stochK ind),
       EarningsWarning = bool_or_null (earningsWithin30Days ind),
       PriceTargets = Some (calculatePriceTargetsFromIndicators (sa_candles analysis) ind),
       EntryConfirmed = bool_or_null (entryConfirmed ind),
       ReversalTimeline = Some ''3-5 candles''\<rparr>)"

text \<open>
  The picks before their conversion to the output format: the analyses, grouped, each
  group sorted, merged in priority order. The score lives here and is not copied to the
  output.
\<close>

definition finalPicks ::
  "Env \<Rightarrow> ScreenerParams \<Rightarrow> (string \<times> Candle list) list \<Rightarrow> (string \<rightharpoonup> TickerMeta)
    \<Rightarrow> StockAnalysis list" where
  "finalPicks env p ts md =
     (let analyses = foldl (analyse_step env p md) [] ts;
          groups = sortGroups (setupGroups analyses)
      in mergeGroups groups (priorityOrder p) \<lfloor>max_results p\<rfloor> [])"

text \<open>\<^verbatim>\<open>input.timeseries || {}\<close> and \<^verbatim>\<open>input.metadata || {}\<close>.\<close>

definition timeseries_of :: "EngineInput \<Rightarrow> (string \<times> Candle list) list" where
  "timeseries_of input = (case in_timeseries input of None \<Rightarrow> [] | Some t \<Rightarrow> t)"

definition metadata_of :: "EngineInput \<Rightarrow> (string \<rightharpoonup> TickerMeta)" where
  "metadata_of input = (case in_metadata input of None \<Rightarrow> Map.empty | Some m \<Rightarrow> m)"

definition runEngine :: "Env \<Rightarrow> EngineInput \<Rightarrow> error + EngineOutput" where
  "runEngine env input =
     (case assertFixedFilters of
        Inl e \<Rightarrow> Inl e
      | Inr u \<Rightarrow>
          (case validateParams (in_params input) of
             Inl e \<Rightarrow> Inl e
           | Inr p \<Rightarrow>
               Inr \<lparr>out_as_of_date = as_of_date p,
                    picks = map (toPick p)
                      (finalPicks env p (timeseries_of input) (metadata_of input))\<rparr>))"

section \<open>The ranking as the specification words it\<close>

text \<open>
  The classified tickers in discovery order; the group of a reason, sorted by descending
  score with ties in discovery order; and the walk over the priority order that stops at
  the cap, which keeps the first \<open>max_results\<close> members of the groups laid end to end.
\<close>

definition spec_classified ::
  "Env \<Rightarrow> ScreenerParams \<Rightarrow> (string \<times> Candle list) list \<Rightarrow> (string \<rightharpoonup> TickerMeta)
    \<Rightarrow> StockAnalysis list" where
  "spec_classified env p ts md =
     List.map_filter (\<lambda>entry. analyseTicker env p md (fst entry) (snd entry)) ts"

definition spec_group :: "StockAnalysis list \<Rightarrow> SetupReason \<Rightarrow> StockAnalysis list" where
  "spec_group analyses reason =
     sort_key (\<lambda>a. - score a) (filter (\<lambda>a. setupReason a = reason) analyses)"

definition spec_ranking :: "ScreenerParams \<Rightarrow> StockAnalysis list \<Rightarrow> StockAnalysis list" where
  "spec_ranking p analyses =
     take (nat \<lfloor>max_results p\<rfloor>) (concat (map (spec_group analyses) (priorityOrder p)))"

definition leo_setups :: "SetupReason set" where
  "leo_setups =
     {Reversal_Accumulation, Reversal_Distribution, BB_Lower_Bounce, BB_Upper_Reject,
      Stoch_Oversold_Reversal, Stoch_Overbought_Reversal}"

definition standard_setups :: "SetupReason set" where
  "standard_setups = {Breakout, Momentum, Pullback, Fib_Pullback, Consolidation, Reversal}"

text \<open>Scores do not increase from a pick to a later pick of the same reason.\<close>

definition score_ordered :: "StockAnalysis \<Rightarrow> StockAnalysis \<Rightarrow> bool" where
  "score_ordered a b = (if setupReason a = setupReason b then score b \<le> score a else True)"

section \<open>The classifier as the specification words it\<close>

text \<open>
  The specification asks for an explicit ordered list of predicate and outcome pairs,
  evaluated in sequence, the first match returned: the six Leo rules when Leo mode is
  enabled, then the six standard rules. A rule is its condition, its reason and its score.
\<close>

fun first_match :: "(bool \<times> SetupReason \<times> real) list \<Rightarrow> (SetupReason \<times> real) option" where
  "first_match [] = None"
| "first_match (rule # rest) = (if fst rule then Some (snd rule) else first_match rest)"

definition spec_in_bullish_zone :: "Indicators \<Rightarrow> ScreenerParams \<Rightarrow> bool" where
  "spec_in_bullish_zone ind p =
     (case (bbPercentB ind, stochK ind) of
        (Some b, Some k) \<Rightarrow> b < 0.2 \<and> k < stoch_oversold_threshold p
      | _ \<Rightarrow> False)"

definition spec_in_bearish_zone :: "Indicators \<Rightarrow> ScreenerParams \<Rightarrow> bool" where
  "spec_in_bearish_zone ind p =
     (case (bbPercentB ind, stochK ind) of
        (Some b, Some k) \<Rightarrow> b > 0.8 \<and> k > stoch_overbought_threshold p
      | _ \<Rightarrow> False)"

definition spec_pattern_allowed :: "CandlestickPattern list \<Rightarrow> Indicators \<Rightarrow> ScreenerParams \<Rightarrow> bool" where
  "spec_pattern_allowed kinds ind p =
     (case candlestickPattern ind of
        None \<Rightarrow> False
      | Some pt \<Rightarrow>
          pt \<in> set kinds \<and> (candlestick_patterns p = [] \<or> pt \<in> set (candlestick_patterns p)))"

definition spec_volume_confirms :: "VolumeShift \<Rightarrow> Indicators \<Rightarrow> ScreenerParams \<Rightarrow> bool" where
  "spec_volume_confirms side ind p =
     (volumeShift ind = Some side \<and>
      (if require_volume_shift p then or_else (volumeShiftStrength ind) 0 > 30 else True))"

definition spec_leo_rules ::
  "Indicators \<Rightarrow> ScreenerParams \<Rightarrow> (bool \<times> SetupReason \<times> real) list" where
  "spec_leo_rules ind p =
     [(spec_in_bullish_zone ind p \<and>
       spec_pattern_allowed [Doji, Hammer, Long_lower_shadow, Engulfing_bullish] ind p \<and>
       spec_volume_confirms Buyer ind p,
       Reversal_Accumulation,
       calculateLeoReversalScore ind Bullish (or_else (volumeShiftStrength ind) 0)),
      (spec_in_bullish_zone ind p \<and>
       spec_pattern_allowed [Doji, Hammer, Long_lower_shadow, Engulfing_bullish] ind p \<and>
       bb_bounce_enabled p,
       BB_Lower_Bounce, 75 + (100 - the (bbPercentB ind) * 100)),
      (spec_in_bullish_zone ind p \<and> the (stochK ind) < 20,
       Stoch_Oversold_Reversal, 65 + (20 - the (stochK ind))),
      (spec_in_bearish_zone ind p \<and>
       spec_pattern_allowed [Gravestone_doji, Shooting_star, Engulfing_bearish] ind p \<and>
       spec_volume_confirms Seller ind p,
       Reversal_Distribution,
       calculateLeoReversalScore ind Bearish (or_else (volumeShiftStrength ind) 0)),
      (spec_in_bearish_zone ind p \<and>
       spec_pattern_allowed [Gravestone_doji, Shooting_star, Engulfing_bearish] ind p \<and>
       bb_bounce_enabled p,
       BB_Upper_Reject, 75 + (the (bbPercentB ind) - 0.8) * 500),
      (spec_in_bearish_zone ind p \<and> the (stochK ind) > 80,
       Stoch_Overbought_Reversal, 65 + (the (stochK ind) - 80))]"

definition spec_standard_rules ::
  "Candle list \<Rightarrow> Indicators \<Rightarrow> (bool \<times> SetupReason \<times> real) list" where
  "spec_standard_rules candles ind =
     [(isBreakout candles ind, Breakout, calculateBreakoutScore candles ind),
      (isMomentum candles ind, Momentum, calculateMomentumScore candles ind),
      (is_true (fibHit ind) \<and> is_true (reactionBullish ind),
       Fib_Pullback, calculateFibPullbackScore candles ind),
      (isPullback candles ind, Pullback, calculatePullbackScore candles ind),
      (isConsolidation candles ind, Consolidation, calculateConsolidationScore candles ind),
      (isReversal candles ind, Reversal, calculateReversalScore candles ind)]"

definition spec_rules ::
  "Candle list \<Rightarrow> Indicators \<Rightarrow> ScreenerParams \<Rightarrow> (bool \<times> SetupReason \<times> real) list" where
  "spec_rules candles ind p =
     (if leo_mode_enabled p then spec_leo_rules ind p else []) @ spec_standard_rules candles ind"

section \<open>Malformed parameters as the specification lists them\<close>

text \<open>
  The ways in which parameters are malformed: crossed market-cap bounds, a date that is
  not of the ISO shape, RSI or Stochastic bounds outside 0 to 100 or crossed, a lookback
  or result cap that is not positive, and a value of one of the four checked enumerations
  that is neither listed for it nor the name of an inherited object property.
\<close>

definition spec_malformed :: "ScreenerParams \<Rightarrow> bool" where
  "spec_malformed p =
     (market_cap_min p > market_cap_max p \<or>
      \<not> matches_iso_date (as_of_date p) \<or>
      rsi_min p < 0 \<or> rsi_min p > 100 \<or> rsi_max p < 0 \<or> rsi_max p > 100 \<or>
      rsi_min p > rsi_max p \<or>
      stoch_k_min p < 0 \<or> stoch_k_min p > 100 \<or> stoch_k_max p < 0 \<or> stoch_k_max p > 100 \<or>
      stoch_k_min p > stoch_k_max p \<or>
      trend_lookback p \<le> 0 \<or> atr_lookback p \<le> 0 \<or> max_results p \<le> 0 \<or>
      ma_cross p \<notin> set maSet \<union> set Object_prototype_keys \<or>
      trend_type p \<notin> set trendSet \<union> set Object_prototype_keys \<or>
      fib_reference p \<notin> set fibRefSet \<union> set Object_prototype_keys \<or>
      fib_zone p \<notin> set fibZoneSet \<union> set Object_prototype_keys)"

section \<open>The price targets as the specification words them\<close>

text \<open>
  The three kinds of target; the zones that qualify; and the list of targets, once with
  the three most recent of the swing highs above the current price (\<open>spec_price_targets\<close>)
  and once with those of the three most recent swing highs that are above the current
  price (\<open>amended_price_targets\<close>).
\<close>

definition fvg_target :: "FVGZone \<Rightarrow> PriceTarget" where
  "fvg_target z =
     \<lparr>pt_type = Fvg, pt_price = midpoint z, pt_description = FVG_retracement,
      pt_confidence = 80\<rparr>"

definition swing_target :: "SwingPoint \<Rightarrow> PriceTarget" where
  "swing_target h =
     \<lparr>pt_type = Swing, pt_price = sp_price h, pt_description = Previous_swing_high (sp_date h),
      pt_confidence = 70\<rparr>"

definition ceiling_target :: "real \<Rightarrow> PriceTarget" where
  "ceiling_target currentPrice =
     \<lparr>pt_type = Percentage, pt_price = currentPrice * 1.10,
      pt_description = Maximum_realistic_target, pt_confidence = 50\<rparr>"

definition spec_fvg_candidates :: "real \<Rightarrow> FVGZone list \<Rightarrow> FVGZone list" where
  "spec_fvg_candidates currentPrice zones =
     filter (\<lambda>z. \<not> isFilled z \<and>
                 ((fvg_type z = Bullish \<and> midpoint z > currentPrice) \<or>
                  (fvg_type z = Bearish \<and> midpoint z < currentPrice))) zones"

definition spec_price_targets :: "real \<Rightarrow> FVGZone list \<Rightarrow> SwingPoint list \<Rightarrow> PriceTarget list" where
  "spec_price_targets currentPrice zones highs =
     take 5 (sort_key pt_price
       (map fvg_target (spec_fvg_candidates currentPrice zones) @
        map swing_target (slice_last 3 (filter (\<lambda>h. sp_price h > currentPrice) highs)) @
        [ceiling_target currentPrice]))"

definition amended_price_targets :: "real \<Rightarrow> FVGZone list \<Rightarrow> SwingPoint list \<Rightarrow> PriceTarget list" where
  "amended_price_targets currentPrice zones highs =
     take 5 (sort_key pt_price
       (map fvg_target (spec_fvg_candidates currentPrice zones) @
        map swing_target (filter (\<lambda>h. sp_price h > currentPrice) (slice_last 3 highs)) @
        [ceiling_target currentPrice]))"

section \<open>Concrete inputs\<close>

text \<open>
  An environment with empty index lists, the identity for upper-casing and a clock for
  which no string is a date.
\<close>

definition sample_env :: Env where
  "sample_env =
     \<lparr>INDEX_CONSTITUENTS = (\<lambda>idx. []), toUpperCase = (\<lambda>s. s), daysFromNow = (\<lambda>d. None)\<rparr>"

text \<open>
  Daily bars are dated by consecutive days of 2025: \<open>iso_day i\<close> is the ISO date of the
  day \<open>i\<close> days after 2025-02-13, so that day 260 is 2025-10-31.
\<close>

definition two_digits :: "nat \<Rightarrow> string" where
  "two_digits n = [''0123456789'' ! (n div 10), ''0123456789'' ! (n mod 10)]"

fun month_day :: "nat \<Rightarrow> nat list \<Rightarrow> nat \<Rightarrow> nat \<times> nat" where
  "month_day d [] m = (m, d + 1)"
| "month_day d (len # lens) m = (if d < len then (m, d + 1) else month_day (d - len) lens (m + 1))"

definition iso_day :: "nat \<Rightarrow> string" where
  "iso_day i =
     (let md = month_day (i + 43) [31, 28, 31, 30, 31, 30, 31, 31, 30, 31, 30, 31] 1
      in ''2025-'' @ two_digits (fst md) @ ''-'' @ two_digits (snd md))"

text \<open>
  A bar with all four prices at 35 and a volume of one million shares, and the series of
  the first \<open>n\<close> such days.
\<close>

definition flat_bar :: "nat \<Rightarrow> Candle" where
  "flat_bar i = \<lparr>c_t = iso_day i, c_o = 35, c_h = 35, c_l = 35, c_c = 35, c_v = 1000000\<rparr>"

definition flat_series :: "nat \<Rightarrow> Candle list" where
  "flat_series n = map flat_bar [0 ..< n]"

text \<open>
  The indicators and parameters of the Leo accumulation scenario: the default parameters
  with Leo mode enabled, and a snapshot holding only the five values the scenario names.
\<close>

definition leo_params :: ScreenerParams where
  "leo_params = (DEFAULT_PARAMS ''2025-10-31'')\<lparr>leo_mode_enabled := True\<rparr>"

definition leo_scenario_indicators :: Indicators where
  "leo_scenario_indicators =
     no_indicators
       \<lparr>bbPercentB := Some 0.05, stochK := Some 10, candlestickPattern := Some Hammer,
        volumeShift := Some Buyer, volumeShiftStrength := Some 60\<rparr>"

text \<open>
  A series of 261 daily bars: 260 bars that open, trade and close at 100 on a volume of
  \<open>vol0\<close>, then the bar of 2025-10-31, which opens at 100 and closes at its high \<open>k\<close> on
  a volume of \<open>vol\<close>.
\<close>

definition quiet_bar :: "real \<Rightarrow> nat \<Rightarrow> Candle" where
  "quiet_bar vol i = \<lparr>c_t = iso_day i, c_o = 100, c_h = 100, c_l = 100, c_c = 100, c_v = vol\<rparr>"

definition jump_bar :: "real \<Rightarrow> real \<Rightarrow> Candle" where
  "jump_bar k vol = \<lparr>c_t = iso_day 260, c_o = 100, c_h = k, c_l = 100, c_c = k, c_v = vol\<rparr>"

definition jump_series :: "real \<Rightarrow> real \<Rightarrow> real \<Rightarrow> Candle list" where
  "jump_series vol0 k vol = map (quiet_bar vol0) [0 ..< 260] @ [jump_bar k vol]"

text \<open>
  The default parameters as of 2025-10-31 with a result cap and a timeframe; metadata
  that passes the default user filters for every ticker; and three tickers whose last
  closes are 104, 106 and 102.
\<close>

definition run_params :: "real \<Rightarrow> string \<Rightarrow> ScreenerParams" where
  "run_params cap tf = (DEFAULT_PARAMS ''2025-10-31'')\<lparr>max_results := cap, timeframe := tf\<rparr>"

definition sample_meta :: "string \<Rightarrow> TickerMeta" where
  "sample_meta tk =
     \<lparr>meta_ticker = tk, company = Some ''Sample Corp'', sector = Some ''Industrials'',
      industry = Some ''Machinery'', marketCap = Some 25000000000,
      nextEarningsDate = Some ''2025-12-05'', lastCompletedBar = Some ''2025-10-31''\<rparr>"

definition three_tickers :: "(string \<times> Candle list) list" where
  "three_tickers =
     [(''AAA'', jump_series 2000000 104 4000000),
      (''BBB'', jump_series 2000000 106 4000000),
      (''CCC'', jump_series 2000000 102 4000000)]"

definition sample_metadata :: "string \<rightharpoonup> TickerMeta" where
  "sample_metadata tk = Some (sample_meta tk)"

text \<open>
  The boundary of the fixed filters: every bar trades 1,000,000 shares, so the 20-bar
  average volume is exactly 1,000,000 and the relative volume exactly 1; the last bar
  closes at 104.
\<close>

definition edge_series :: "Candle list" where
  "edge_series = jump_series 1000000 104 1000000"

definition edge_input :: EngineInput where
  "edge_input =
     \<lparr>in_params = DEFAULT_PARAMS ''2025-10-31'',
      in_timeseries = Some [(''EDGE'', edge_series)],
      in_metadata = Some sample_metadata\<rparr>"

text \<open>
  The breakout scenario: 260 flat bars at 100 on 2,000,000 shares, then a bar that closes
  at 105, which is 5% above the high of the 20 bars before it, on 4,000,000 shares, twice
  their average volume.
\<close>

definition breakout_series :: "Candle list" where
  "breakout_series = jump_series 2000000 105 4000000"

definition breakout_input :: EngineInput where
  "breakout_input =
     \<lparr>in_params = DEFAULT_PARAMS ''2025-10-31'',
      in_timeseries = Some [(''BRK'', breakout_series)],
      in_metadata = Some sample_metadata\<rparr>"

text \<open>A run over the three tickers with a given result cap.\<close>

definition three_ticker_input :: "real \<Rightarrow> EngineInput" where
  "three_ticker_input cap =
     \<lparr>in_params = run_params cap ''weekly'', in_timeseries = Some three_tickers,
      in_metadata = Some sample_metadata\<rparr>"

text \<open>
  Swing highs and gap zones for the price targets of a ticker that last closed at 35, with
  more candidates than the cap of five lets through.
\<close>

definition swing_high_at :: "string \<Rightarrow> real \<Rightarrow> SwingPoint" where
  "swing_high_at d x = \<lparr>sp_date = d, sp_price = x, sp_high = True, sp_strength = 3\<rparr>"

definition gap_zone :: "FVGType \<Rightarrow> real \<Rightarrow> real \<Rightarrow> bool \<Rightarrow> FVGZone" where
  "gap_zone side lo hi filled =
     \<lparr>fvg_type = side, topPrice = hi, bottomPrice = lo, midpoint = (hi + lo) / 2,
      startDate = ''2025-09-01'', endDate = ''2025-09-03'', isFilled = filled\<rparr>"

definition crowded_indicators :: Indicators where
  "crowded_indicators =
     no_indicators
       \<lparr>fvgZones := Some [gap_zone Bullish 39 41 False, gap_zone Bearish 29 31 False,
                          gap_zone Bullish 44 46 True],
        swingHighs := Some [swing_high_at ''2025-03-03'' 50, swing_high_at ''2025-06-02'' 36,
                            swing_high_at ''2025-08-01'' 37, swing_high_at ''2025-10-01'' 38]\<rparr>"

text \<open>
  A series of 261 daily bars that open and close at 320 on two million shares, with lows
  of 320 throughout and highs of 500, 360, 370 and 330 on the bars 50, 100, 150 and 200;
  the last bar, of 2025-10-31, closes at its high 350 on four million shares. The
  indicators are those the engine computes from the series in Leo mode.
\<close>

definition peak_high :: "nat \<Rightarrow> real" where
  "peak_high i =
     (if i = 50 then 500 else if i = 100 then 360 else if i = 150 then 370
      else if i = 200 then 330 else if i = 260 then 350 else 320)"

definition peak_bar :: "nat \<Rightarrow> Candle" where
  "peak_bar i =
     \<lparr>c_t = iso_day i, c_o = 320, c_h = peak_high i, c_l = 320,
      c_c = (if i = 260 then 350 else 320), c_v = (if i = 260 then 4000000 else 2000000)\<rparr>"

definition peak_series :: "Candle list" where
  "peak_series = map peak_bar [0 ..< 261]"

definition peak_indicators :: Indicators where
  "peak_indicators =
     calculateIndicators sample_env peak_series leo_params (Some (sample_meta ''PEAK''))"

text \<open>
  The bars that \<^verbatim>\<open>detectSwingPoints\<close> records as swing highs: those whose high exceeds the
  highs of the \<open>str\<close> bars on either side.
\<close>

definition is_swing_high :: "Candle list \<Rightarrow> nat \<Rightarrow> nat \<Rightarrow> bool" where
  "is_swing_high candles str i =
     list_all (\<lambda>j. c_h (candles ! (i - j)) < c_h (candles ! i) \<and>
                   c_h (candles ! (i + j)) < c_h (candles ! i)) [1 ..< str + 1]"

section \<open>Auxiliary facts\<close>

lemma foldl_add_sum_list:
  "foldl (\<lambda>sum x. sum + f x) a xs = a + sum_list (map f xs)"
  by (induction xs arbitrary: a) (simp_all add: algebra_simps)

lemma last_in_slice_last: "xs \<noteq> [] \<Longrightarrow> last xs \<in> set (slice_last n xs)"
proof (cases "n = 0")
  case True
  assume "xs \<noteq> []"
  with True show ?thesis by (simp add: slice_last_def)
next
  case False
  assume ne: "xs \<noteq> []"
  with False have lt: "length xs - n < length xs" by (cases xs) auto
  then have "drop (length xs - n) xs \<noteq> []" by simp
  then have "last (drop (length xs - n) xs) \<in> set (drop (length xs - n) xs)" by (rule last_in_set)
  with lt show ?thesis using False by (simp add: slice_last_def)
qed

lemma hh20_calculateIndicators:
  "hh20 (calculateIndicators env candles p meta) = Some (Math_max (slice_last 20 (map c_h candles)))"
  by (simp add: calculateIndicators_def Let_def)

lemma last_close_le_hh20:
  assumes "candles \<noteq> []" and "\<forall>c \<in> set candles. c_c c \<le> c_h c"
  shows "c_c (last candles) \<le> Math_max (slice_last 20 (map c_h candles))"
proof -
  have "c_h (last candles) \<in> set (slice_last 20 (map c_h candles))"
    using last_in_slice_last[of "map c_h candles" 20] assms(1) by (simp add: last_map)
  then have "c_h (last candles) \<le> Math_max (slice_last 20 (map c_h candles))"
    by (simp add: Math_max_def)
  moreover have "c_c (last candles) \<le> c_h (last candles)"
    using assms by simp
  ultimately show ?thesis by simp
qed

lemma classifyLeoReversal_reason:
  "classifyLeoReversal candles ind p = Some r \<Longrightarrow>
   fst r \<in> {Reversal_Accumulation, BB_Lower_Bounce, Stoch_Oversold_Reversal,
            Reversal_Distribution, BB_Upper_Reject, Stoch_Overbought_Reversal}"
  unfolding classifyLeoReversal_def Let_def
  by (auto split: if_splits option.splits)

lemma not_isBreakout_not_Breakout:
  assumes "\<not> isBreakout candles ind"
  shows "map_option fst (classifySetup candles ind p) \<noteq> Some Breakout"
  using assms classifyLeoReversal_reason[of candles ind p]
  by (auto simp: classifySetup_def split: option.splits if_splits)

lemma rsi_flat:
  assumes "length closes \<ge> period + 1" and "\<forall>a \<in> set closes. a = x"
  shows "rsi closes period = Some 100"
proof -
  have step: "\<And>i. i < length closes \<Longrightarrow> i - 1 < length closes \<Longrightarrow> rsi_step closes (0, 0) i = (0, 0)"
  proof -
    fix i assume "i < length closes" "i - 1 < length closes"
    then have "closes ! i = x" "closes ! (i - 1) = x" using assms(2) by (auto simp: nth_mem)
    then show "rsi_step closes (0, 0) i = (0, 0)" by (simp add: rsi_step_def Let_def)
  qed
  have loop: "set js \<subseteq> {..<length closes} \<Longrightarrow> foldl (rsi_step closes) (0, 0) js = (0, 0)" for js
  proof (induction js)
    case Nil then show ?case by simp
  next
    case (Cons i js)
    then have "i < length closes" by auto
    then have "rsi_step closes (0, 0) i = (0, 0)" using step[of i] by simp
    with Cons show ?case by simp
  qed
  have "foldl (rsi_step closes) (0, 0) [length closes - period ..< length closes] = (0, 0)"
    by (rule loop) auto
  with assms(1) show ?thesis by (simp add: rsi_def Let_def)
qed

subsection \<open>Ranking and assembly\<close>

lemma foldl_analyse_step:
  "foldl (analyse_step env p md) acc ts = acc @ spec_classified env p ts md"
  by (induction ts arbitrary: acc)
     (auto simp: analyse_step_def spec_classified_def List.map_filter_simps split: option.splits)

lemma foldl_group_step:
  "foldl group_step g xs r = g r @ filter (\<lambda>a. setupReason a = r) xs"
  by (induction xs arbitrary: g) (auto simp: group_step_def)

lemma setupGroups_filter: "setupGroups xs r = filter (\<lambda>a. setupReason a = r) xs"
  by (simp add: setupGroups_def foldl_group_step)

lemma sortGroups_setupGroups: "sortGroups (setupGroups xs) = spec_group xs"
  by (rule ext) (simp add: sortGroups_def setupGroups_filter spec_group_def)

lemma mergeGroups_take:
  "0 < remaining \<Longrightarrow>
   mergeGroups groups rs remaining acc = acc @ take (nat remaining) (concat (map groups rs))"
proof (induction rs arbitrary: remaining acc)
  case Nil
  then show ?case by simp
next
  case (Cons r rs)
  let ?g = "groups r"
  show ?case
  proof (cases "remaining \<le> int (length ?g)")
    case True
    then have "min (int (length ?g)) remaining = remaining" by simp
    with Cons.prems True show ?thesis by (simp add: slice_to_def Let_def)
  next
    case False
    then have m: "min (int (length ?g)) remaining = int (length ?g)" by simp
    from False have pos: "0 < remaining - int (length ?g)" by simp
    have "nat remaining - length ?g = nat (remaining - int (length ?g))" by simp
    with False Cons.IH[OF pos] m show ?thesis by (simp add: slice_to_def Let_def)
  qed
qed

lemma cap_positive:
  assumes pos: "0 < max_results p" and int: "isInteger (max_results p)"
  shows "0 < \<lfloor>max_results p\<rfloor>" and "real (nat \<lfloor>max_results p\<rfloor>) = max_results p"
proof -
  from int have eq: "real_of_int \<lfloor>max_results p\<rfloor> = max_results p"
    by (simp only: isInteger_def)
  from pos have "0 < real_of_int \<lfloor>max_results p\<rfloor>" by (simp only: eq)
  then show "0 < \<lfloor>max_results p\<rfloor>" by (simp only: of_int_0_less_iff)
  then have "real (nat \<lfloor>max_results p\<rfloor>) = real_of_int \<lfloor>max_results p\<rfloor>" by simp
  with eq show "real (nat \<lfloor>max_results p\<rfloor>) = max_results p" by simp
qed

lemma finalPicks_spec:
  assumes "0 < max_results p" and "isInteger (max_results p)"
  shows "finalPicks env p ts md = spec_ranking p (spec_classified env p ts md)"
  using cap_positive(1)[OF assms] foldl_analyse_step[of env p md "[]" ts]
  by (simp add: finalPicks_def Let_def mergeGroups_take sortGroups_setupGroups spec_ranking_def)

lemma validateParams_Inr:
  "validateParams m = Inr p \<Longrightarrow> p = m \<and> 0 < max_results m \<and> isInteger (max_results m)"
  by (auto simp: validateParams_def split: if_splits)

lemma runEngine_Inr:
  assumes "runEngine env input = Inr out"
  shows "validateParams (in_params input) = Inr (in_params input)"
    and "out_as_of_date out = as_of_date (in_params input)"
    and "picks out = map (toPick (in_params input))
            (finalPicks env (in_params input) (timeseries_of input) (metadata_of input))"
  using assms by (auto simp: runEngine_def split: sum.splits dest: validateParams_Inr)

lemma group_sizes:
  "(\<Sum>r\<leftarrow>priorityOrder p. length (filter (\<lambda>a. setupReason a = r) xs)) = length xs"
proof (induction xs)
  case Nil
  then show ?case by (simp add: priorityOrder_def)
next
  case (Cons a xs)
  then show ?case by (cases "setupReason a") (auto simp: priorityOrder_def split: if_splits)
qed

lemma length_ranked:
  "length (concat (map (spec_group xs) (priorityOrder p))) = length xs"
  using group_sizes[where p = p and xs = xs] by (simp add: length_concat spec_group_def comp_def)

lemma priorityOrder_blocks:
  "distinct (priorityOrder p) \<and> length (priorityOrder p) = 12 \<and>
   set (take 6 (priorityOrder p)) = (if leo_mode_enabled p then leo_setups else standard_setups) \<and>
   set (drop 6 (priorityOrder p)) = (if leo_mode_enabled p then standard_setups else leo_setups)"
  by (auto simp: priorityOrder_def leo_setups_def standard_setups_def)

lemma spec_group_reason: "a \<in> set (spec_group xs r) \<Longrightarrow> setupReason a = r"
  by (simp add: spec_group_def)

lemma spec_group_ordered: "sorted_wrt score_ordered (spec_group xs r)"
proof -
  have "sorted (map (\<lambda>a. - score a) (spec_group xs r))"
    by (simp add: spec_group_def)
  then have "sorted_wrt (\<lambda>a b. - score a \<le> - score b) (spec_group xs r)"
    by (simp add: sorted_map)
  then show ?thesis
    by (rule sorted_wrt_mono_rel[rotated]) (simp add: score_ordered_def)
qed

lemma concat_groups_ordered:
  "distinct rs \<Longrightarrow> sorted_wrt score_ordered (concat (map (spec_group xs) rs))"
proof (induction rs)
  case Nil
  then show ?case by simp
next
  case (Cons r rs)
  have "score_ordered a b"
    if "a \<in> set (spec_group xs r)" and "b \<in> set (concat (map (spec_group xs) rs))" for a b
  proof -
    from that(2) obtain r' where "r' \<in> set rs" and "b \<in> set (spec_group xs r')" by auto
    with that(1) Cons.prems have "setupReason a \<noteq> setupReason b"
      by (auto dest!: spec_group_reason)
    then show ?thesis by (simp add: score_ordered_def)
  qed
  with Cons show ?case by (simp add: sorted_wrt_append spec_group_ordered)
qed

lemma spec_ranking_ordered: "sorted_wrt score_ordered (spec_ranking p xs)"
  unfolding spec_ranking_def
  by (rule sorted_wrt_take) (simp add: concat_groups_ordered priorityOrder_blocks)

subsection \<open>The engine on the sample series\<close>

lemma foldl_plus_sum_list: "foldl (\<lambda>sum val. sum + val) a xs = a + sum_list xs"
  using foldl_add_sum_list[of "\<lambda>x. x" a xs] by simp

lemma slice_last_replicate_snoc:
  "0 < m \<Longrightarrow> m \<le> n + 1 \<Longrightarrow> slice_last m (replicate n x @ [y]) = replicate (m - 1) x @ [y]"
  by (simp add: slice_last_def)

lemma sma_replicate_snoc:
  "0 < m \<Longrightarrow> m \<le> n + 1 \<Longrightarrow>
   sma (replicate n x @ [y]) m = Some ((real (m - 1) * x + y) / real m)"
  by (simp add: sma_def slice_last_replicate_snoc foldl_plus_sum_list sum_list_replicate)

lemma rsi_replicate_snoc:
  assumes "0 < m" and "m \<le> n" and "x \<le> y"
  shows "rsi (replicate n x @ [y]) m = Some 100"
proof -
  let ?cs = "replicate n x @ [y]"
  have flat: "rsi_step ?cs (0, 0) i = (0, 0)" if "0 < i" "i < n" for i
  proof -
    from that have "i - 1 < n" by simp
    with that show ?thesis by (simp add: rsi_step_def nth_append Let_def)
  qed
  have loop: "set js \<subseteq> {0<..<n} \<Longrightarrow> foldl (rsi_step ?cs) (0, 0) js = (0, 0)" for js
    by (induction js) (simp_all add: flat)
  have split: "[Suc n - m ..< Suc n] = [Suc n - m ..< n] @ [n]"
    using assms by simp
  have first: "foldl (rsi_step ?cs) (0, 0) [Suc n - m ..< n] = (0, 0)"
    using assms by (intro loop) auto
  have lst: "snd (rsi_step ?cs (0, 0) n) = 0"
    using assms by (auto simp: rsi_step_def nth_append Let_def)
  have "snd (foldl (rsi_step ?cs) (0, 0) [Suc n - m ..< Suc n]) = 0"
    by (simp only: split foldl_append first) (simp add: lst)
  with assms show ?thesis by (simp add: rsi_def Let_def)
qed

lemma Math_max_replicate_snoc: "0 < n \<Longrightarrow> Math_max (replicate n x @ [y]) = max x y"
  by (simp add: Math_max_def max.commute)

lemma Math_min_replicate_snoc: "0 < n \<Longrightarrow> Math_min (replicate n x @ [y]) = min x y"
  by (simp add: Math_min_def min.commute)

lemma slice_last_map: "map f (slice_last n xs) = slice_last n (map f xs)"
  by (simp add: slice_last_def drop_map)

lemma slice_last_replicate:
  "0 < m \<Longrightarrow> m \<le> n \<Longrightarrow> slice_last m (replicate n x) = replicate m x"
  by (simp add: slice_last_def)

lemma length_slice_last: "0 < m \<Longrightarrow> m \<le> length xs \<Longrightarrow> length (slice_last m xs) = m"
  by (simp add: slice_last_def)

lemma sma_replicate: "0 < m \<Longrightarrow> m \<le> n \<Longrightarrow> sma (replicate n x) m = Some x"
  by (simp add: sma_def slice_last_replicate foldl_plus_sum_list sum_list_replicate)

lemma bar_fields:
  "c_o (quiet_bar v0 i) = 100" "c_h (quiet_bar v0 i) = 100" "c_l (quiet_bar v0 i) = 100"
  "c_c (quiet_bar v0 i) = 100" "c_v (quiet_bar v0 i) = v0"
  "c_o (jump_bar k v) = 100" "c_h (jump_bar k v) = k" "c_l (jump_bar k v) = 100"
  "c_c (jump_bar k v) = k" "c_v (jump_bar k v) = v"
  "c_o (flat_bar i) = 35" "c_h (flat_bar i) = 35" "c_l (flat_bar i) = 35"
  "c_c (flat_bar i) = 35" "c_v (flat_bar i) = 1000000"
  by (simp_all add: quiet_bar_def jump_bar_def flat_bar_def)

lemma jump_series_maps:
  "map c_c (jump_series v0 k v) = replicate 260 100 @ [k]"
  "map c_h (jump_series v0 k v) = replicate 260 100 @ [k]"
  "map c_l (jump_series v0 k v) = replicate 260 100 @ [100]"
  "map c_v (jump_series v0 k v) = replicate 260 v0 @ [v]"
  "length (jump_series v0 k v) = 261"
  "last (jump_series v0 k v) = jump_bar k v"
  by (simp_all add: jump_series_def comp_def bar_fields map_replicate_const)

lemma jump_series_nth:
  "i < 260 \<Longrightarrow> jump_series v0 k v ! i = quiet_bar v0 i"
  "jump_series v0 k v ! 260 = jump_bar k v"
  by (simp_all add: jump_series_def nth_append)

lemma slice_last_jump_series_ends:
  assumes "1 < m" and "m \<le> 261"
  shows "c_c (hd (slice_last m (jump_series v0 k v))) = 100"
    and "last (slice_last m (jump_series v0 k v)) = jump_bar k v"
proof -
  let ?js = "jump_series v0 k v"
  from assms have lt: "261 - m < 260" and lt': "261 - m < length ?js"
    by (simp_all add: jump_series_maps)
  from assms have sl: "slice_last m ?js = drop (261 - m) ?js"
    by (simp add: slice_last_def jump_series_maps)
  have "hd (drop (261 - m) ?js) = ?js ! (261 - m)"
    using lt' by (rule hd_drop_conv_nth)
  with lt show "c_c (hd (slice_last m ?js)) = 100"
    by (simp add: sl jump_series_nth bar_fields)
  show "last (slice_last m ?js) = jump_bar k v"
    using lt' by (simp add: sl jump_series_maps)
qed

lemma flat_series_maps:
  "map c_c (flat_series n) = replicate n 35"
  "map c_h (flat_series n) = replicate n 35"
  "map c_l (flat_series n) = replicate n 35"
  "length (flat_series n) = n"
  by (simp_all add: flat_series_def comp_def bar_fields map_replicate_const)

lemma flat_series_nonempty: "0 < n \<Longrightarrow> flat_series n \<noteq> []"
  by (simp add: flat_series_def)

lemma last_flat_series: "0 < n \<Longrightarrow> c_c (last (flat_series n)) = 35"
  by (simp add: flat_series_def last_map bar_fields)

lemma stochasticK_jump_series:
  "100 < k \<Longrightarrow> stochasticK (jump_series v0 k v) 14 3 = Some 100"
  by (simp add: stochasticK_def slice_last_map jump_series_maps slice_last_replicate_snoc bar_fields
      Math_max_replicate_snoc Math_min_replicate_snoc Let_def)

lemma directional_moves_jump_series:
  assumes "100 < k"
  shows "map (directional_move (jump_series v0 k v)) [1 ..< 261]
           = replicate 259 (0, 0) @ [(k - 100, 0)]"
proof -
  let ?js = "jump_series v0 k v"
  have quiet: "directional_move ?js i = (0, 0)" if "i \<in> set [1 ..< 260]" for i
  proof -
    from that have "i < 260" "i - 1 < 260" by auto
    then show ?thesis by (simp add: directional_move_def jump_series_nth bar_fields Let_def)
  qed
  have "map (directional_move ?js) [1 ..< 260] = map (\<lambda>i. (0, 0)) [1 ..< 260]"
    by (rule map_cong[OF refl]) (rule quiet)
  then have first: "map (directional_move ?js) [1 ..< 260] = replicate 259 (0, 0)"
    by (simp add: map_replicate_const)
  have lst: "directional_move ?js 260 = (k - 100, 0)"
    using assms by (simp add: directional_move_def jump_series_nth bar_fields Let_def)
  have "[1 ..< 261] = [1 ..< 260] @ [260::nat]"
    using upt_Suc_append[of 1 260] by simp
  then show ?thesis by (simp only: map_append first) (simp add: lst)
qed

lemma adx_jump_series:
  assumes "100 < k"
  shows "adx (jump_series v0 k v) 14 = Some 100"
  unfolding adx_def Let_def jump_series_maps(5) directional_moves_jump_series[OF assms]
  using assms by (simp add: sma_replicate_snoc or_else_def)

lemma determineTrend_jump_series:
  "determineTrend (jump_series v0 k v) 60
     = (if k > 105 then Up else if k < 95 then Down else Sideways)"
  by (simp add: determineTrend_def jump_series_maps slice_last_jump_series_ends bar_fields Let_def)

lemma calculateSRDistance_jump_series:
  "100 \<le> k \<Longrightarrow> calculateSRDistance (jump_series v0 k v) x = Some 0"
  by (simp add: calculateSRDistance_def slice_last_map jump_series_maps slice_last_replicate_snoc bar_fields
      Math_max_replicate_snoc Math_min_replicate_snoc Let_def)

lemma analyzeFibonacci_jump_series:
  "analyzeFibonacci (jump_series v0 k v) ref ''*'' = (True, 100 < k)"
  by (simp add: analyzeFibonacci_def slice_last_map jump_series_maps jump_series_nth bar_fields Let_def)

lemma calculateIndicators_fields:
  "sma20 (calculateIndicators env candles p meta) = sma (map c_c candles) 20"
  "rsi14 (calculateIndicators env candles p meta) = rsi (map c_c candles) 14"
  "stochK (calculateIndicators env candles p meta) = stochasticK candles 14 3"
  "adx14 (calculateIndicators env candles p meta) = adx candles 14"
  "avgVol20 (calculateIndicators env candles p meta) = sma (map c_v candles) 20"
  "ll20 (calculateIndicators env candles p meta) = Some (Math_min (slice_last 20 (map c_l candles)))"
  "trend (calculateIndicators env candles p meta)
     = Some (determineTrend candles (nat \<lfloor>trend_lookback p\<rfloor>))"
  "srDistancePct (calculateIndicators env candles p meta)
     = calculateSRDistance candles (sr_proximity_pct p)"
  "fibHit (calculateIndicators env candles p meta)
     = Some (fst (analyzeFibonacci candles (fib_reference p) (fib_zone p)))"
  "reactionBullish (calculateIndicators env candles p meta)
     = Some (snd (analyzeFibonacci candles (fib_reference p) (fib_zone p)))"
  by (simp_all add: calculateIndicators_def Let_def)

lemma passesFixedFilters_jump_series:
  "passesFixedFilters (jump_series v0 k v) meta =
     (30 < k \<and> 1000000 \<le> (19 * v0 + v) / 20 \<and> 1 \<le> v / ((19 * v0 + v) / 20))"
  by (simp add: passesFixedFilters_def FIXED_FILTERS_def foldl_add_sum_list slice_last_map
      length_slice_last jump_series_maps slice_last_replicate_snoc sum_list_replicate bar_fields
      Let_def not_less
      del: divide_divide_eq_left divide_divide_eq_right)

lemma run_params_fields:
  "user_sector (run_params cap tf) = ''*''" "user_industry (run_params cap tf) = ''*''"
  "market_cap_min (run_params cap tf) = 2000000000"
  "market_cap_max (run_params cap tf) = 10000000000000"
  "rsi_min (run_params cap tf) = 0" "rsi_max (run_params cap tf) = 100"
  "stoch_k_min (run_params cap tf) = 0" "stoch_k_max (run_params cap tf) = 100"
  "trend_type (run_params cap tf) = ''*''" "trend_lookback (run_params cap tf) = 60"
  "ma_cross (run_params cap tf) = ''none''" "sr_proximity_pct (run_params cap tf) = 3"
  "adx_min (run_params cap tf) = 0" "atr_lookback (run_params cap tf) = 14"
  "fib_reference (run_params cap tf) = ''swing_low_to_high''" "fib_zone (run_params cap tf) = ''*''"
  "max_results (run_params cap tf) = cap" "as_of_date (run_params cap tf) = ''2025-10-31''"
  "leo_mode_enabled (run_params cap tf) = False" "timeframe (run_params cap tf) = tf"
  by (simp_all add: run_params_def DEFAULT_PARAMS_def)

lemma passesIndicatorFilters_jump_series:
  assumes "100 < k"
  shows "passesIndicatorFilters
           (calculateIndicators env (jump_series v0 k v) (run_params cap tf) meta) (run_params cap tf)"
  using assms
  by (simp add: passesIndicatorFilters_def calculateIndicators_fields run_params_fields
      jump_series_maps rsi_replicate_snoc stochasticK_jump_series adx_jump_series
      calculateSRDistance_jump_series)

lemma classifySetup_jump_series:
  assumes "100 < k"
  shows "classifySetup (jump_series v0 k v)
           (calculateIndicators env (jump_series v0 k v) (run_params cap tf) meta) (run_params cap tf)
         = (if 105 < k
            then Some (Momentum,
                   calculateMomentumScore (jump_series v0 k v)
                     (calculateIndicators env (jump_series v0 k v) (run_params cap tf) meta))
            else Some (Fib_Pullback,
                   calculateFibPullbackScore (jump_series v0 k v)
                     (calculateIndicators env (jump_series v0 k v) (run_params cap tf) meta)))"
  using assms
  by (simp add: classifySetup_def run_params_fields isBreakout_def isMomentum_def is_true_def
      calculateIndicators_fields hh20_calculateIndicators jump_series_maps bar_fields
      slice_last_replicate_snoc Math_max_replicate_snoc Math_min_replicate_snoc truthy_def
      rsi_replicate_snoc adx_jump_series determineTrend_jump_series analyzeFibonacci_jump_series
      Let_def)

lemma calculateMomentumScore_jump_series:
  assumes "100 < k"
  shows "calculateMomentumScore (jump_series v0 k v)
           (calculateIndicators env (jump_series v0 k v) p meta) = 150"
  using assms
  by (simp add: calculateMomentumScore_def calculateIndicators_fields jump_series_maps
      rsi_replicate_snoc adx_jump_series or_else_def Let_def)

lemma calculateFibPullbackScore_jump_series:
  assumes "100 < k" and "k \<le> 105"
  shows "calculateFibPullbackScore (jump_series v0 k v)
           (calculateIndicators env (jump_series v0 k v) p meta)
         = 120 - 120 * (19 * k - 1900) / (1900 + k)"
proof -
  let ?ind = "calculateIndicators env (jump_series v0 k v) p meta"
  have s20: "sma20 ?ind = Some ((1900 + k) / 20)"
    by (simp add: calculateIndicators_fields jump_series_maps sma_replicate_snoc)
  have r14: "rsi14 ?ind = Some 100"
    using assms by (simp add: calculateIndicators_fields jump_series_maps rsi_replicate_snoc)
  have ne: "(1900 + k) / 20 \<noteq> 0" using assms by simp
  have d: "\<bar>k - (1900 + k) / 20\<bar> = (19 * k - 1900) / 20"
    using assms by (simp add: abs_if field_simps)
  have q: "(19 * k - 1900) / 20 / ((1900 + k) / 20) = (19 * k - 1900) / (1900 + k)"
    using assms by (simp add: field_simps)
  have nonneg: "0 \<le> 100 - (19 * k - 1900) / (1900 + k) * 100"
    using assms by (simp add: field_simps)
  have "calculatePullbackScore (jump_series v0 k v) ?ind
          = max 0 (100 - \<bar>k - (1900 + k) / 20\<bar> / ((1900 + k) / 20) * 100) + max 0 (50 - 100)"
    using ne unfolding calculatePullbackScore_def Let_def s20 r14 jump_series_maps(6)
    by (simp add: or_else_def bar_fields)
  also have "\<dots> = 100 - (19 * k - 1900) / (1900 + k) * 100"
    unfolding d q using nonneg by simp
  finally have pb: "calculatePullbackScore (jump_series v0 k v) ?ind
                      = 100 - (19 * k - 1900) / (1900 + k) * 100" .
  have "1900 + k \<noteq> 0" using assms by simp
  then show ?thesis
    unfolding calculateFibPullbackScore_def pb by (simp add: field_simps)
qed

lemma analyseTicker_jump_series:
  assumes "100 < k" and "1000000 \<le> (19 * v0 + v) / 20" and "1 \<le> v / ((19 * v0 + v) / 20)"
  shows "analyseTicker env (run_params cap tf) sample_metadata tk (jump_series v0 k v) =
           Some \<lparr>sa_ticker = tk, sa_meta = sample_meta tk, sa_candles = jump_series v0 k v,
                 sa_indicators =
                   calculateIndicators env (jump_series v0 k v) (run_params cap tf)
                     (Some (sample_meta tk)),
                 setupReason = (if 105 < k then Momentum else Fib_Pullback),
                 score = (if 105 < k then 150 else 120 - 120 * (19 * k - 1900) / (1900 + k))\<rparr>"
proof -
  have ff: "passesFixedFilters (jump_series v0 k v) (sample_meta tk)"
    using assms by (simp only: passesFixedFilters_jump_series) simp
  have uf: "passesUserFilters (sample_meta tk) (run_params cap tf)"
    by (simp add: passesUserFilters_def run_params_fields sample_meta_def or_else_def)
  show ?thesis
    using assms(1) ff uf
    by (simp add: analyseTicker_def sample_metadata_def FIXED_FILTERS_def jump_series_maps(5)
        run_params_fields passesIndicatorFilters_jump_series classifySetup_jump_series
        calculateMomentumScore_jump_series calculateFibPullbackScore_jump_series Let_def)
qed

lemma validateParams_run_params:
  "0 < cap \<Longrightarrow> isInteger cap \<Longrightarrow> validateParams (run_params cap tf) = Inr (run_params cap tf)"
  by (simp add: validateParams_def run_params_fields matches_iso_date_def is_digit_def
      inRange_def isInteger_def js_in_def maSet_def trendSet_def fibRefSet_def fibZoneSet_def)

lemma runEngine_run_params:
  "0 < cap \<Longrightarrow> isInteger cap \<Longrightarrow>
   runEngine env \<lparr>in_params = run_params cap tf, in_timeseries = Some ts, in_metadata = Some md\<rparr>
     = Inr \<lparr>out_as_of_date = ''2025-10-31'',
            picks = map (toPick (run_params cap tf))
                      (spec_ranking (run_params cap tf)
                         (spec_classified env (run_params cap tf) ts md))\<rparr>"
  by (simp add: runEngine_def assertFixedFilters_def FIXED_FILTERS_def validateParams_run_params
      timeseries_of_def metadata_of_def finalPicks_spec run_params_fields)

lemma toPick_fields:
  "Ticker (toPick p a) = sa_ticker a" "SelectionReason (toPick p a) = setupReason a"
  "RelativeVolume (toPick p a) = or_else (relVol (sa_indicators a)) 0"
  by (simp_all add: toPick_def Let_def)

lemma relVol_calculateIndicators:
  "relVol (calculateIndicators env candles p meta)
     = (if truthy (sma (map c_v candles) 20)
        then Some (c_v (last candles) / the (sma (map c_v candles) 20)) else None)"
  by (simp add: calculateIndicators_def Let_def)

lemma three_tickers_classified:
  "map (\<lambda>a. (sa_ticker a, setupReason a, score a))
     (spec_classified env (run_params cap tf) three_tickers sample_metadata)
   = [(''AAA'', Fib_Pullback, 120 - 120 * 76 / 2004), (''BBB'', Momentum, 150),
      (''CCC'', Fib_Pullback, 120 - 120 * 38 / 2002)]"
  by (simp add: spec_classified_def three_tickers_def List.map_filter_simps
      analyseTicker_jump_series)

lemma three_tickers_ranking:
  "map (\<lambda>a. (sa_ticker a, setupReason a))
     (spec_ranking (run_params 2 tf)
        (spec_classified env (run_params 2 tf) three_tickers sample_metadata))
   = [(''BBB'', Momentum), (''CCC'', Fib_Pullback)]"
  by (simp add: spec_ranking_def spec_group_def priorityOrder_def run_params_fields
      spec_classified_def three_tickers_def List.map_filter_simps analyseTicker_jump_series)

subsection \<open>The classifier and the rule list\<close>

lemma classifyLeoReversal_first_match:
  "leo_mode_enabled p \<Longrightarrow>
   classifyLeoReversal candles ind p = first_match (spec_leo_rules ind p)"
  unfolding classifyLeoReversal_def spec_leo_rules_def Let_def spec_in_bullish_zone_def
    spec_in_bearish_zone_def spec_pattern_allowed_def spec_volume_confirms_def
  by (auto split: option.splits)

lemma first_match_append:
  "first_match (xs @ ys) = (case first_match xs of Some r \<Rightarrow> Some r | None \<Rightarrow> first_match ys)"
  by (induction xs) auto

lemma classifySetup_first_match_aux:
  "classifySetup candles ind p = first_match (spec_rules candles ind p)"
  by (auto simp: classifySetup_def spec_rules_def first_match_append
      classifyLeoReversal_first_match spec_standard_rules_def split: option.splits)

subsection \<open>Validation\<close>

lemma validateParams_malformed:
  "spec_malformed p \<Longrightarrow> \<exists>e. validateParams p = Inl e"
  unfolding spec_malformed_def validateParams_def inRange_def js_in_def
  by (auto simp: not_le)

subsection \<open>Price targets\<close>

lemma foldl_fvg_target_step:
  "foldl (fvg_target_step cp) acc zones = acc @ map fvg_target (spec_fvg_candidates cp zones)"
  by (induction zones arbitrary: acc)
     (auto simp: fvg_target_step_def spec_fvg_candidates_def fvg_target_def)

lemma foldl_swing_target_step:
  "foldl (swing_target_step cp) acc highs
     = acc @ map swing_target (filter (\<lambda>h. sp_price h > cp) highs)"
  by (induction highs arbitrary: acc) (auto simp: swing_target_step_def swing_target_def)

lemma calculatePriceTargets_amended:
  assumes "20 \<le> length candles"
    and "fvgZones ind = Some zones" and "swingHighs ind = Some highs"
  shows "calculatePriceTargetsFromIndicators candles ind
           = amended_price_targets (c_c (last candles)) zones highs"
  using assms
  by (simp add: calculatePriceTargetsFromIndicators_def amended_price_targets_def Let_def
      foldl_fvg_target_step foldl_swing_target_step ceiling_target_def)

subsection \<open>Swing highs and gap zones of the peaked series\<close>

lemma foldl_swing_flags_fst:
  "fst (foldl (swing_flags candles i) flags js)
     = (fst flags \<and>
        list_all (\<lambda>j. c_h (candles ! (i - j)) < c_h (candles ! i) \<and>
                      c_h (candles ! (i + j)) < c_h (candles ! i)) js)"
  by (induction js arbitrary: flags) (auto simp: swing_flags_def Let_def not_le)

lemma foldl_swing_step_fst:
  "fst (foldl (swing_step candles str) hl js)
     = fst hl @
       map (\<lambda>i. \<lparr>sp_date = c_t (candles ! i), sp_price = c_h (candles ! i),
                  sp_high = True, sp_strength = str\<rparr>)
         (filter (is_swing_high candles str) js)"
  by (induction js arbitrary: hl)
     (simp_all add: swing_step_def Let_def foldl_swing_flags_fst is_swing_high_def)

lemma peak_series_nth: "i < 261 \<Longrightarrow> peak_series ! i = peak_bar i"
  by (simp add: peak_series_def)

lemma peak_high_ge: "320 \<le> peak_high i"
  by (simp add: peak_high_def)

lemma not_swing_high_base:
  assumes "0 < i" "i < 260" "peak_high i = 320"
  shows "\<not> is_swing_high peak_series 3 i"
proof -
  have "peak_series ! (i - 1) = peak_bar (i - 1)" "peak_series ! i = peak_bar i"
    using assms by (simp_all add: peak_series_nth)
  then have "\<not> c_h (peak_series ! (i - 1)) < c_h (peak_series ! i)"
    using peak_high_ge [of "i - 1"] assms(3) by (simp add: peak_bar_def)
  moreover have "[1 ..< 3 + 1] = [1, 2, 3::nat]"
    by code_simp
  ultimately show ?thesis
    by (simp add: is_swing_high_def)
qed

lemma filter_swing_segment:
  assumes "0 < a" "b \<le> 260" "\<forall>i. a \<le> i \<and> i < b \<longrightarrow> peak_high i = 320"
  shows "filter (is_swing_high peak_series 3) [a ..< b] = []"
proof -
  have "\<not> is_swing_high peak_series 3 i" if "i \<in> set [a ..< b]" for i
    using that assms by (intro not_swing_high_base) auto
  then show ?thesis
    by (simp only: filter_empty_conv) blast
qed

lemma swing_high_peak:
  assumes "i \<in> {50, 100, 150, 200}"
  shows "is_swing_high peak_series 3 i"
proof -
  have "[1 ..< 3 + 1] = [1, 2, 3::nat]"
    by code_simp
  then show ?thesis
    using assms
    by (auto simp: is_swing_high_def peak_series_nth peak_bar_def peak_high_def)
qed

lemma upt_split: "a \<le> i \<Longrightarrow> i < b \<Longrightarrow> [a ..< b] = [a ..< i] @ i # [Suc i ..< b]"
  by (metis le_add_diff_inverse less_imp_le_nat upt_add_eq_append upt_conv_Cons)

lemma peak_swing_indices:
  "filter (is_swing_high peak_series 3) [3 ..< 258] = [50, 100, 150, 200]"
proof -
  have split: "[3 ..< 258] = [3 ..< 50] @ 50 # [51 ..< 100] @ 100 # [101 ..< 150] @ 150 #
                 [151 ..< 200] @ 200 # [201 ..< (258::nat)]"
    using upt_split [of 3 50 258] upt_split [of 51 100 258] upt_split [of 101 150 258]
      upt_split [of 151 200 258]
    by simp
  have seg: "filter (is_swing_high peak_series 3) [3 ..< 50] = []"
    "filter (is_swing_high peak_series 3) [51 ..< 100] = []"
    "filter (is_swing_high peak_series 3) [101 ..< 150] = []"
    "filter (is_swing_high peak_series 3) [151 ..< 200] = []"
    "filter (is_swing_high peak_series 3) [201 ..< 258] = []"
    by (rule filter_swing_segment, simp, simp, simp add: peak_high_def)+
  have pk: "is_swing_high peak_series 3 50" "is_swing_high peak_series 3 100"
    "is_swing_high peak_series 3 150" "is_swing_high peak_series 3 200"
    by (rule swing_high_peak, simp)+
  show ?thesis
    unfolding split by (simp only: filter_append filter.simps seg pk if_True append_Nil append_Cons)
qed

lemma peak_swing_highs:
  "fst (detectSwingPoints peak_series 3)
     = [swing_high_at (iso_day 50) 500, swing_high_at (iso_day 100) 360,
        swing_high_at (iso_day 150) 370, swing_high_at (iso_day 200) 330]"
proof -
  have "length peak_series = 261"
    by (simp add: peak_series_def)
  then have "detectSwingPoints peak_series 3
               = foldl (swing_step peak_series 3) ([], []) [3 ..< 258]"
    by (simp add: detectSwingPoints_def del: upt_rec_numeral)
  then have "fst (detectSwingPoints peak_series 3)
               = map (\<lambda>i. \<lparr>sp_date = c_t (peak_series ! i), sp_price = c_h (peak_series ! i),
                            sp_high = True, sp_strength = 3\<rparr>) [50, 100, 150, 200]"
    by (simp only: foldl_swing_step_fst peak_swing_indices fst_conv append_Nil)
  then show ?thesis
    by (simp add: peak_series_nth peak_bar_def peak_high_def swing_high_at_def)
qed

lemma foldl_fvg_step_none:
  assumes "\<forall>i \<in> set js. \<not> c_l (cs ! i) > c_h (cs ! (i - 2)) \<and> \<not> c_h (cs ! i) < c_l (cs ! (i - 2))"
  shows "foldl (fvg_step cs cp) acc js = acc"
  using assms by (induction js arbitrary: acc) (simp_all add: fvg_step_def Let_def)

lemma peak_gap_zones: "detectFVGs peak_series 20 = []"
proof -
  have len: "length peak_series = 261"
    by (simp add: peak_series_def)
  have recent: "slice_last 22 peak_series = map peak_bar [239 ..< 261]"
    by (simp add: slice_last_def peak_series_def drop_map del: upt_rec_numeral)
  have "foldl (fvg_step (map peak_bar [239 ..< 261]) cp) [] [2 ..< 22] = []" for cp
    by (rule foldl_fvg_step_none) (auto simp: peak_bar_def not_less peak_high_ge
        simp del: upt_rec_numeral)
  then show ?thesis
    by (simp add: detectFVGs_def len recent Let_def del: upt_rec_numeral)
qed

lemma peak_indicators_fields:
  "fvgZones peak_indicators = Some (detectFVGs peak_series 20)"
  "swingHighs peak_indicators = Some (fst (detectSwingPoints peak_series 3))"
  by (simp_all add: peak_indicators_def calculateIndicators_def Let_def leo_params_def
      DEFAULT_PARAMS_def)

lemma last_peak_series: "c_c (last peak_series) = 350"
  by (simp add: peak_series_def last_map peak_bar_def)

subsection \<open>Runs of the engine on the sample inputs\<close>

lemma run_params_default: "run_params 50 ''weekly'' = DEFAULT_PARAMS ''2025-10-31''"
  by (simp add: run_params_def DEFAULT_PARAMS_def)

lemma three_ticker_run:
  "0 < cap \<Longrightarrow> isInteger cap \<Longrightarrow>
   runEngine sample_env (three_ticker_input cap)
     = Inr \<lparr>out_as_of_date = ''2025-10-31'',
            picks = map (toPick (run_params cap ''weekly''))
                      (spec_ranking (run_params cap ''weekly'')
                         (spec_classified sample_env (run_params cap ''weekly'')
                            three_tickers sample_metadata))\<rparr>"
  by (simp add: three_ticker_input_def runEngine_run_params)

section \<open>Fixed filters at the boundary (C1)\<close>

text \<open>
  C1. The claim: a ticker whose 20-day average volume is exactly 1,000,000, or whose
  relative volume is exactly 1.0, is excluded from the output. \<^verbatim>\<open>passesFixedFilters\<close>
  rejects an average volume or a relative volume below its constant, not one equal to it.
  The ticker \<open>EDGE\<close> has an average volume of exactly 1,000,000 and a relative volume of
  exactly 1; it passes the fixed filters, and under the default parameters the engine
  returns it as its only pick, with a \<open>RelativeVolume\<close> of 1.
\<close>

theorem boundary_ticker_is_picked:
  "avgVol20 (calculateIndicators sample_env edge_series (DEFAULT_PARAMS ''2025-10-31'')
              (Some (sample_meta ''EDGE''))) = Some 1000000 \<and>
   relVol (calculateIndicators sample_env edge_series (DEFAULT_PARAMS ''2025-10-31'')
            (Some (sample_meta ''EDGE''))) = Some 1 \<and>
   passesFixedFilters edge_series (sample_meta ''EDGE'') \<and>
   (\<exists>out. runEngine sample_env edge_input = Inr out \<and>
          map (\<lambda>pk. (Ticker pk, RelativeVolume pk)) (picks out) = [(''EDGE'', 1)])"
proof -
  have av: "sma (map c_v edge_series) 20 = Some 1000000"
    by (simp add: edge_series_def jump_series_maps sma_replicate_snoc)
  have lv: "c_v (last edge_series) = 1000000"
    by (simp add: edge_series_def jump_series_maps bar_fields)
  have rv: "relVol (calculateIndicators env edge_series p meta) = Some 1" for env p meta
    by (simp add: relVol_calculateIndicators av lv truthy_def)
  have "avgVol20 (calculateIndicators sample_env edge_series (DEFAULT_PARAMS ''2025-10-31'')
              (Some (sample_meta ''EDGE''))) = Some 1000000"
    by (simp add: calculateIndicators_fields av)
  moreover have "passesFixedFilters edge_series (sample_meta ''EDGE'')"
    by (simp add: edge_series_def passesFixedFilters_jump_series)
  moreover have "\<exists>out. runEngine sample_env edge_input = Inr out \<and>
          map (\<lambda>pk. (Ticker pk, RelativeVolume pk)) (picks out) = [(''EDGE'', 1)]"
    unfolding edge_input_def run_params_default[symmetric]
    by (simp add: runEngine_run_params isInteger_def run_params_fields comp_def toPick_fields
        spec_ranking_def spec_group_def priorityOrder_def spec_classified_def
        List.map_filter_simps analyseTicker_jump_series[of 104 1000000 1000000, folded edge_series_def]
        rv or_else_def)
  ultimately show ?thesis using rv by simp
qed

section \<open>The result cap and the priority walk (C2)\<close>

text \<open>
  C2. Whenever the engine returns, the picks are at most \<open>max_results\<close>, and they are the
  first \<open>max_results\<close> members of the score-sorted groups of the classified tickers laid
  end to end in priority order: groups are appended whole until the cap is reached, the
  group that crosses it is cut to the remaining slots, and the groups after it are
  dropped. When more tickers are classified than the cap allows, exactly \<open>max_results\<close>
  picks are returned. The priority order lists every reason once, the six Leo reasons
  first when Leo mode is enabled and the six standard reasons first otherwise.
\<close>

theorem result_cap_and_priority_walk:
  assumes "runEngine env input = Inr out"
  shows "real (length (picks out)) \<le> max_results (in_params input) \<and>
         picks out =
           map (toPick (in_params input))
             (spec_ranking (in_params input)
                (spec_classified env (in_params input) (timeseries_of input) (metadata_of input))) \<and>
         (if max_results (in_params input)
               < real (length (spec_classified env (in_params input)
                                 (timeseries_of input) (metadata_of input)))
          then real (length (picks out)) = max_results (in_params input)
          else length (picks out)
               = length (spec_classified env (in_params input)
                           (timeseries_of input) (metadata_of input))) \<and>
         distinct (priorityOrder (in_params input)) \<and>
         set (take 6 (priorityOrder (in_params input)))
           = (if leo_mode_enabled (in_params input) then leo_setups else standard_setups) \<and>
         set (drop 6 (priorityOrder (in_params input)))
           = (if leo_mode_enabled (in_params input) then standard_setups else leo_setups)"
proof -
  let ?p = "in_params input"
  let ?cl = "spec_classified env ?p (timeseries_of input) (metadata_of input)"
  from runEngine_Inr(1)[OF assms] have v: "0 < max_results ?p" "isInteger (max_results ?p)"
    by (auto dest: validateParams_Inr)
  have pk: "picks out = map (toPick ?p) (spec_ranking ?p ?cl)"
    using runEngine_Inr(3)[OF assms] finalPicks_spec[OF v] by simp
  have len: "length (picks out) = min (length ?cl) (nat \<lfloor>max_results ?p\<rfloor>)"
    by (simp add: pk spec_ranking_def length_ranked)
  have cap: "real (nat \<lfloor>max_results ?p\<rfloor>) = max_results ?p"
    by (rule cap_positive(2)[OF v])
  have le: "real (length (picks out)) \<le> max_results ?p"
    using len cap by linarith
  have ex: "real (length (picks out)) = max_results ?p"
    if "max_results ?p < real (length ?cl)"
    using that len cap by linarith
  have nex: "length (picks out) = length ?cl"
    if "\<not> max_results ?p < real (length ?cl)"
    using that len cap by linarith
  show ?thesis
    using le pk ex nex priorityOrder_blocks[of ?p] by simp
qed

theorem result_cap_and_priority_walk_witness:
  "\<exists>out. runEngine sample_env (three_ticker_input 2) = Inr out \<and>
         real (length (picks out)) \<le> max_results (in_params (three_ticker_input 2)) \<and>
         max_results (in_params (three_ticker_input 2)) = 2 \<and>
         length (spec_classified sample_env (run_params 2 ''weekly'') three_tickers sample_metadata) = 3 \<and>
         map (\<lambda>pk. (Ticker pk, SelectionReason pk)) (picks out)
           = [(''BBB'', Momentum), (''CCC'', Fib_Pullback)]"
proof -
  have run: "runEngine sample_env (three_ticker_input 2)
      = Inr \<lparr>out_as_of_date = ''2025-10-31'',
            picks = map (toPick (run_params 2 ''weekly''))
                      (spec_ranking (run_params 2 ''weekly'')
                         (spec_classified sample_env (run_params 2 ''weekly'')
                            three_tickers sample_metadata))\<rparr>"
    by (rule three_ticker_run) (simp_all add: isInteger_def)
  have cap: "real (length (picks \<lparr>out_as_of_date = ''2025-10-31'',
            picks = map (toPick (run_params 2 ''weekly''))
                      (spec_ranking (run_params 2 ''weekly'')
                         (spec_classified sample_env (run_params 2 ''weekly'')
                            three_tickers sample_metadata))\<rparr>))
          \<le> max_results (in_params (three_ticker_input 2))"
    by (rule result_cap_and_priority_walk[OF run, THEN conjunct1])
  have tick: "map (\<lambda>pk. (Ticker pk, SelectionReason pk))
      (map (toPick (run_params 2 ''weekly''))
                      (spec_ranking (run_params 2 ''weekly'')
                         (spec_classified sample_env (run_params 2 ''weekly'')
                            three_tickers sample_metadata)))
       = [(''BBB'', Momentum), (''CCC'', Fib_Pullback)]"
    using three_tickers_ranking[of "''weekly''" sample_env]
    by (simp add: comp_def toPick_fields)
  have n: "length (spec_classified sample_env (run_params 2 ''weekly'') three_tickers sample_metadata) = 3"
    using arg_cong[OF three_tickers_classified[of sample_env 2 "''weekly''"], of length]
    by simp
  show ?thesis
    using run cap tick n by (simp add: three_ticker_input_def run_params_fields)
qed

section \<open>The breakout scenario (C3)\<close>

text \<open>
  C3. The claim: 260 flat bars followed by a bar that closes 5% above the prior 20-bar high
  on twice the average volume appear in the output as \<open>Breakout\<close>. On such bars, with the
  last bar closing at its high, \<open>isBreakout\<close> is false, because \<open>hh20\<close> counts the last bar's
  own high; the engine returns the ticker \<open>BRK\<close> with the reason \<open>Fib_Pullback\<close>.
\<close>

theorem breakout_scenario_is_not_Breakout:
  "length breakout_series = 261 \<and>
   c_c (last breakout_series) = 1.05 * Math_max (map c_h (slice_last 20 (butlast breakout_series))) \<and>
   sma (map c_v (butlast breakout_series)) 20 = Some 2000000 \<and>
   c_v (last breakout_series) = 2 * 2000000 \<and>
   \<not> isBreakout breakout_series
       (calculateIndicators sample_env breakout_series (DEFAULT_PARAMS ''2025-10-31'')
          (Some (sample_meta ''BRK''))) \<and>
   (\<exists>out. runEngine sample_env breakout_input = Inr out \<and>
          map (\<lambda>pk. (Ticker pk, SelectionReason pk)) (picks out) = [(''BRK'', Fib_Pullback)])"
proof -
  have bl: "butlast breakout_series = map (quiet_bar 2000000) [0 ..< 260]"
    unfolding breakout_series_def jump_series_def by (rule butlast_snoc)
  have "length breakout_series = 261"
    by (simp add: breakout_series_def jump_series_maps)
  moreover have "c_c (last breakout_series)
                   = 1.05 * Math_max (map c_h (slice_last 20 (butlast breakout_series)))"
    by (simp add: bl slice_last_map comp_def bar_fields map_replicate_const
          slice_last_replicate Math_max_def)
       (simp add: breakout_series_def jump_series_maps bar_fields)
  moreover have "sma (map c_v (butlast breakout_series)) 20 = Some 2000000"
    by (simp add: bl comp_def bar_fields map_replicate_const sma_replicate)
  moreover have "c_v (last breakout_series) = 2 * 2000000"
    by (simp add: breakout_series_def jump_series_maps bar_fields)
  moreover have "\<not> isBreakout breakout_series
       (calculateIndicators sample_env breakout_series (DEFAULT_PARAMS ''2025-10-31'')
          (Some (sample_meta ''BRK'')))"
    by (simp add: isBreakout_def hh20_calculateIndicators breakout_series_def jump_series_maps
        slice_last_replicate_snoc Math_max_replicate_snoc bar_fields Let_def)
  moreover have "\<exists>out. runEngine sample_env breakout_input = Inr out \<and>
          map (\<lambda>pk. (Ticker pk, SelectionReason pk)) (picks out) = [(''BRK'', Fib_Pullback)]"
    unfolding breakout_input_def breakout_series_def run_params_default[symmetric]
    by (simp add: runEngine_run_params isInteger_def run_params_fields comp_def toPick_fields
        spec_ranking_def spec_group_def priorityOrder_def spec_classified_def
        List.map_filter_simps analyseTicker_jump_series)
  ultimately show ?thesis by simp
qed

text \<open>In particular no pick of that run carries the reason \<open>Breakout\<close>.\<close>

theorem breakout_scenario_is_not_Breakout_witness:
  "\<exists>out. runEngine sample_env breakout_input = Inr out \<and>
         length (picks out) = 1 \<and>
         Breakout \<notin> set (map SelectionReason (picks out))"
proof -
  have "\<exists>out. runEngine sample_env breakout_input = Inr out \<and>
          map (\<lambda>pk. (Ticker pk, SelectionReason pk)) (picks out) = [(''BRK'', Fib_Pullback)]"
    by (rule breakout_scenario_is_not_Breakout
          [THEN conjunct2, THEN conjunct2, THEN conjunct2, THEN conjunct2, THEN conjunct2])
  then obtain out where
    run: "runEngine sample_env breakout_input = Inr out" and
    pk: "map (\<lambda>pk. (Ticker pk, SelectionReason pk)) (picks out) = [(''BRK'', Fib_Pullback)]"
    by (elim exE conjE)
  from pk have "map snd (map (\<lambda>pk. (Ticker pk, SelectionReason pk)) (picks out)) = [Fib_Pullback]"
    by (simp only: list.map snd_conv)
  then have "map SelectionReason (picks out) = [Fib_Pullback]"
    by (simp add: comp_def)
  moreover from this have "length (picks out) = 1"
    using length_map[of SelectionReason "picks out"] by simp
  ultimately show ?thesis using run by auto
qed

section \<open>Single classification (C4)\<close>

text \<open>
  C4. The classifier returns the outcome of the first rule that matches in the ordered list
  of the Leo rules (when Leo mode is enabled) followed by the standard rules, so a ticker
  gets one reason and score or none; and its result is a function of the candles, the
  indicators and the parameters alone, the source reading nothing else, so that two
  evaluations on identical arguments give the identical reason and score.
\<close>

theorem classifier_first_match:
  "classifySetup candles ind p = first_match (spec_rules candles ind p) \<and>
   (candles' = candles \<and> ind' = ind \<and> p' = p
      \<longrightarrow> classifySetup candles' ind' p' = classifySetup candles ind p)"
  by (simp add: classifySetup_first_match_aux)

theorem classifier_first_match_witness:
  "classifySetup (flat_series 250) leo_scenario_indicators leo_params
     = Some (Reversal_Accumulation, 99.5) \<and>
   first_match (spec_rules (flat_series 250) leo_scenario_indicators leo_params)
     = Some (Reversal_Accumulation, 99.5)"
proof -
  have "first_match (spec_rules (flat_series 250) leo_scenario_indicators leo_params)
          = Some (Reversal_Accumulation, 99.5)"
    by (simp add: spec_rules_def spec_leo_rules_def spec_in_bullish_zone_def
        spec_pattern_allowed_def spec_volume_confirms_def calculateLeoReversalScore_def
        leo_params_def leo_scenario_indicators_def DEFAULT_PARAMS_def no_indicators_def
        or_else_def is_true_def Let_def)
  with classifier_first_match[of "flat_series 250" leo_scenario_indicators leo_params]
  show ?thesis by simp
qed

section \<open>Score order inside a group (C5)\<close>

text \<open>
  C5. The picks are the conversion, in order, of the internally held analyses, a pick's
  \<open>SelectionReason\<close> being its analysis's reason; and from any analysis to any later one
  of the same reason the score does not increase, which holds in particular inside every
  maximal run of picks of one reason.
\<close>

theorem scores_non_increasing_within_groups:
  assumes "runEngine env input = Inr out"
  shows "picks out = map (toPick (in_params input))
           (finalPicks env (in_params input) (timeseries_of input) (metadata_of input)) \<and>
         map SelectionReason (picks out)
           = map setupReason
               (finalPicks env (in_params input) (timeseries_of input) (metadata_of input)) \<and>
         sorted_wrt score_ordered
           (finalPicks env (in_params input) (timeseries_of input) (metadata_of input))"
proof -
  let ?p = "in_params input"
  from runEngine_Inr(1)[OF assms] have v: "0 < max_results ?p" "isInteger (max_results ?p)"
    by (auto dest: validateParams_Inr)
  have "SelectionReason (toPick ?p a) = setupReason a" for a :: StockAnalysis
    by (simp add: toPick_def Let_def)
  then show ?thesis
    using runEngine_Inr(3)[OF assms] finalPicks_spec[OF v] spec_ranking_ordered
    by (simp add: comp_def)
qed

theorem scores_non_increasing_within_groups_witness:
  "\<exists>out. runEngine sample_env (three_ticker_input 50) = Inr out \<and>
         map SelectionReason (picks out) = [Momentum, Fib_Pullback, Fib_Pullback] \<and>
         map score (finalPicks sample_env (run_params 50 ''weekly'') three_tickers sample_metadata)
           = [150, 120 - 120 * 38 / 2002, 120 - 120 * 76 / 2004] \<and>
         sorted_wrt score_ordered
           (finalPicks sample_env (run_params 50 ''weekly'') three_tickers sample_metadata)"
proof -
  have run: "runEngine sample_env (three_ticker_input 50)
      = Inr \<lparr>out_as_of_date = ''2025-10-31'',
            picks = map (toPick (run_params 50 ''weekly''))
                      (spec_ranking (run_params 50 ''weekly'')
                         (spec_classified sample_env (run_params 50 ''weekly'')
                            three_tickers sample_metadata))\<rparr>"
    by (rule three_ticker_run) (simp_all add: isInteger_def)
  have fp: "finalPicks sample_env (run_params 50 ''weekly'') three_tickers sample_metadata
              = spec_ranking (run_params 50 ''weekly'')
                  (spec_classified sample_env (run_params 50 ''weekly'')
                     three_tickers sample_metadata)"
    by (rule finalPicks_spec) (simp_all add: run_params_fields isInteger_def)
  have sc: "map (\<lambda>a. (setupReason a, score a))
              (spec_ranking (run_params 50 ''weekly'')
                  (spec_classified sample_env (run_params 50 ''weekly'')
                     three_tickers sample_metadata))
            = [(Momentum, 150), (Fib_Pullback, 120 - 120 * 38 / 2002),
               (Fib_Pullback, 120 - 120 * 76 / 2004)]"
    by (simp add: spec_ranking_def spec_group_def priorityOrder_def run_params_fields
        spec_classified_def three_tickers_def List.map_filter_simps analyseTicker_jump_series)
  have ord: "sorted_wrt score_ordered
           (finalPicks sample_env (run_params 50 ''weekly'') three_tickers sample_metadata)"
    using scores_non_increasing_within_groups[OF run]
    by (simp add: three_ticker_input_def timeseries_of_def metadata_of_def)
  have "map fst (map (\<lambda>a. (setupReason a, score a))
              (spec_ranking (run_params 50 ''weekly'')
                  (spec_classified sample_env (run_params 50 ''weekly'')
                     three_tickers sample_metadata)))
         = [Momentum, Fib_Pullback, Fib_Pullback]"
       "map snd (map (\<lambda>a. (setupReason a, score a))
              (spec_ranking (run_params 50 ''weekly'')
                  (spec_classified sample_env (run_params 50 ''weekly'')
                     three_tickers sample_metadata)))
         = [150, 120 - 120 * 38 / 2002, 120 - 120 * 76 / 2004]"
    by (simp_all only: sc list.map fst_conv snd_conv)
  then have "map setupReason (spec_ranking (run_params 50 ''weekly'')
                  (spec_classified sample_env (run_params 50 ''weekly'')
                     three_tickers sample_metadata)) = [Momentum, Fib_Pullback, Fib_Pullback]"
       "map score (spec_ranking (run_params 50 ''weekly'')
                  (spec_classified sample_env (run_params 50 ''weekly'')
                     three_tickers sample_metadata))
         = [150, 120 - 120 * 38 / 2002, 120 - 120 * 76 / 2004]"
    by (simp_all add: comp_def)
  with run ord fp show ?thesis by (simp add: comp_def toPick_fields)
qed

section \<open>Degenerate windows of RSI and Stochastic %K (C6)\<close>

text \<open>
  C6. On a list of at least \<open>period + 1\<close> closes that are all equal, \<open>rsi\<close> returns 100; on
  a list of at least \<open>kPeriod\<close> bars whose window has its highest high equal to its lowest
  low, \<open>stochasticK\<close> returns 50. The period is positive and the bars are not empty, as
  at every call of the engine.
\<close>

theorem rsi_stochastic_degenerate:
  "(0 < period \<and> period + 1 \<le> length closes \<and> (\<forall>a \<in> set closes. a = x)
      \<longrightarrow> rsi closes period = Some 100) \<and>
   (candles \<noteq> [] \<and> kPeriod \<le> length candles \<and>
    Math_max (map c_h (slice_last kPeriod candles)) = Math_min (map c_l (slice_last kPeriod candles))
      \<longrightarrow> stochasticK candles kPeriod dPeriod = Some 50)"
  by (auto simp: rsi_flat stochasticK_def Let_def)

theorem rsi_stochastic_degenerate_witness:
  "rsi (replicate 15 100) 14 = Some 100 \<and> stochasticK (flat_series 14) 14 3 = Some 50"
  using rsi_stochastic_degenerate [of 14 "replicate 15 100" 100 "flat_series 14" 14 3]
  by (simp add: slice_last_map flat_series_maps slice_last_replicate Math_max_def Math_min_def
      flat_series_nonempty)

section \<open>The Leo accumulation scenario (C7)\<close>

text \<open>
  C7. With Leo mode enabled, a hammer on the final bar, \<open>%B = 0.05\<close>, \<open>%K = 10\<close> under the
  default oversold threshold of 20, a buyer volume shift of strength 60 and the default
  pattern list, the classifier assigns \<open>Reversal_Accumulation\<close>, whatever the candles and
  the other parameters and indicators are.
\<close>

theorem leo_accumulation_scenario:
  assumes "leo_mode_enabled p"
    and "bbPercentB ind = Some 0.05"
    and "stochK ind = Some 10"
    and "stoch_oversold_threshold p = 20"
    and "candlestickPattern ind = Some Hammer"
    and "candlestick_patterns p = [Doji, Hammer, Long_lower_shadow]"
    and "volumeShift ind = Some Buyer"
    and "volumeShiftStrength ind = Some 60"
  shows "map_option fst (classifySetup candles ind p) = Some Reversal_Accumulation"
  using assms
  by (simp add: classifySetup_def classifyLeoReversal_def Let_def or_else_def)

theorem leo_accumulation_scenario_witness:
  "leo_mode_enabled leo_params \<and> stoch_oversold_threshold leo_params = 20 \<and>
   bbPercentB leo_scenario_indicators = Some 0.05 \<and>
   stochK leo_scenario_indicators = Some 10 \<and>
   map_option fst (classifySetup (flat_series 250) leo_scenario_indicators leo_params)
     = Some Reversal_Accumulation"
  using leo_accumulation_scenario [of leo_params leo_scenario_indicators "flat_series 250"]
  by (simp add: leo_params_def leo_scenario_indicators_def DEFAULT_PARAMS_def no_indicators_def)

section \<open>Fatal configuration errors (C8)\<close>

text \<open>
  C8, as amended. Parameters that are malformed in one of the listed ways (for the
  enumerations: a \<open>ma_cross\<close>, \<open>trend_type\<close>, \<open>fib_reference\<close> or \<open>fib_zone\<close> that is neither a
  listed value nor the name of an inherited object property) make \<open>validateParams\<close> fail
  with one error, and the engine returns that error whatever the time series and the
  metadata are: no ticker is looked at and no picks are produced.
\<close>

theorem malformed_params_abort:
  assumes "spec_malformed p"
  shows "\<exists>e. validateParams p = Inl e \<and>
             (\<forall>ts md. runEngine env \<lparr>in_params = p, in_timeseries = ts, in_metadata = md\<rparr> = Inl e)"
proof -
  from validateParams_malformed[OF assms] obtain e where "validateParams p = Inl e" ..
  then show ?thesis
    by (auto simp: runEngine_def assertFixedFilters_def FIXED_FILTERS_def)
qed

theorem malformed_params_abort_witness:
  "spec_malformed (run_params 0 ''weekly'') \<and>
   validateParams (run_params 0 ''weekly'') = Inl Bad_max_results \<and>
   runEngine sample_env
     \<lparr>in_params = run_params 0 ''weekly'', in_timeseries = Some three_tickers,
      in_metadata = Some sample_metadata\<rparr> = Inl Bad_max_results"
proof -
  have m: "spec_malformed (run_params 0 ''weekly'')"
    by (simp add: spec_malformed_def run_params_fields)
  have v: "validateParams (run_params 0 ''weekly'') = Inl Bad_max_results"
    by (simp add: validateParams_def run_params_fields matches_iso_date_def is_digit_def
        inRange_def isInteger_def)
  from malformed_params_abort[OF m, of sample_env] v show ?thesis using m by auto
qed

text \<open>
  The claim as stated also covers the other enumerations. \<open>timeframe\<close> is one of
  \<open>daily\<close>, \<open>weekly\<close>, \<open>monthly\<close> by its type, and \<^verbatim>\<open>validateParams\<close> does not look at it: with
  the timeframe \<open>hourly\<close> the engine runs and returns three picks.
\<close>

theorem invalid_timeframe_is_not_rejected:
  "''hourly'' \<notin> set [''daily'', ''weekly'', ''monthly''] \<and>
   timeframe (run_params 50 ''hourly'') = ''hourly'' \<and>
   (\<exists>out. runEngine sample_env
            \<lparr>in_params = run_params 50 ''hourly'', in_timeseries = Some three_tickers,
             in_metadata = Some sample_metadata\<rparr> = Inr out \<and>
          map Ticker (picks out) = [''BBB'', ''CCC'', ''AAA''])"
  by (simp add: runEngine_run_params isInteger_def run_params_fields comp_def toPick_fields
      spec_ranking_def spec_group_def priorityOrder_def
      spec_classified_def three_tickers_def List.map_filter_simps analyseTicker_jump_series)

section \<open>Price targets (C9)\<close>

text \<open>
  C9, as amended. For a pick with at least 20 bars whose indicators hold gap zones and
  swing highs, the price targets are: the midpoints of the unfilled bullish zones above
  the current price and of the unfilled bearish zones below it, with confidence 80; those
  of the three most recent swing highs that are above the current price, with confidence
  70; and 1.10 times the current price, with confidence 50; sorted by ascending price and
  cut to the first five.
\<close>

theorem price_targets_of_a_pick:
  assumes "20 \<le> length candles"
    and "fvgZones ind = Some zones" and "swingHighs ind = Some highs"
  shows "calculatePriceTargetsFromIndicators candles ind
           = amended_price_targets (c_c (last candles)) zones highs \<and>
         sorted (map pt_price (calculatePriceTargetsFromIndicators candles ind)) \<and>
         length (calculatePriceTargetsFromIndicators candles ind) \<le> 5"
proof -
  have "sorted (map pt_price (amended_price_targets cp zones highs))" for cp
    unfolding amended_price_targets_def take_map[symmetric]
    by (rule sorted_wrt_take) simp
  moreover have "length (amended_price_targets cp zones highs) \<le> 5" for cp
    by (simp add: amended_price_targets_def)
  ultimately show ?thesis
    by (simp add: calculatePriceTargets_amended[OF assms])
qed

theorem price_targets_of_a_pick_witness:
  "map (\<lambda>t. (pt_price t, pt_confidence t))
     (calculatePriceTargetsFromIndicators (flat_series 250) crowded_indicators)
   = [(30, 80), (36, 70), (37, 70), (38, 70), (38.5, 50)]"
proof -
  have "calculatePriceTargetsFromIndicators (flat_series 250) crowded_indicators
          = amended_price_targets (c_c (last (flat_series 250)))
              [gap_zone Bullish 39 41 False, gap_zone Bearish 29 31 False,
               gap_zone Bullish 44 46 True]
              [swing_high_at ''2025-03-03'' 50, swing_high_at ''2025-06-02'' 36,
               swing_high_at ''2025-08-01'' 37, swing_high_at ''2025-10-01'' 38]"
    using price_targets_of_a_pick[of "flat_series 250" crowded_indicators]
    by (simp add: crowded_indicators_def no_indicators_def flat_series_maps)
  then show ?thesis
    by (simp add: amended_price_targets_def spec_fvg_candidates_def slice_last_def
        gap_zone_def swing_high_at_def fvg_target_def swing_target_def ceiling_target_def
        last_flat_series)
qed

text \<open>
  The claim as stated takes the three most recent among the swing highs above the current
  price. On the peaked series the engine finds no gap zone and the swing highs 500, 360,
  370 and 330, oldest first, and the price is 350: that reading gives the targets 360,
  370, 385 and 500; the source looks at the last three swing highs only and returns 360,
  370 and 385.
\<close>

theorem swing_targets_counterexample:
  "fvgZones peak_indicators = Some [] \<and>
   map_option (map sp_price) (swingHighs peak_indicators) = Some [500, 360, 370, 330] \<and>
   c_c (last peak_series) = 350 \<and>
   map pt_price (calculatePriceTargetsFromIndicators peak_series peak_indicators)
     = [360, 370, 385] \<and>
   map pt_price (spec_price_targets 350 [] (fst (detectSwingPoints peak_series 3)))
     = [360, 370, 385, 500]"
proof -
  have "20 \<le> length peak_series"
    by (simp add: peak_series_def)
  then have "calculatePriceTargetsFromIndicators peak_series peak_indicators
               = amended_price_targets 350 [] (fst (detectSwingPoints peak_series 3))"
    using calculatePriceTargets_amended [of peak_series peak_indicators "[]"
        "fst (detectSwingPoints peak_series 3)"]
    by (simp add: peak_indicators_fields peak_gap_zones last_peak_series)
  then show ?thesis
    by (simp add: peak_indicators_fields peak_gap_zones peak_swing_highs last_peak_series
        amended_price_targets_def spec_price_targets_def spec_fvg_candidates_def
        slice_last_def swing_high_at_def swing_target_def ceiling_target_def)
qed


section \<open>The breakout predicate on well-formed bars (C10)\<close>

text \<open>
  C10. On at least 20 bars whose highs are not below their closes, \<open>isBreakout\<close> is false
  on the indicators computed from those bars, and the classifier does not assign
  \<open>Breakout\<close>: \<open>hh20\<close> is the greatest high of the last 20 bars, the latest bar among them.
\<close>

theorem isBreakout_false_on_well_formed_bars:
  assumes "20 \<le> length candles" and "\<forall>c \<in> set candles. c_c c \<le> c_h c"
  shows "hh20 (calculateIndicators env candles p meta)
           = Some (Math_max (slice_last 20 (map c_h candles))) \<and>
         c_h (last candles) \<in> set (slice_last 20 (map c_h candles)) \<and>
         \<not> isBreakout candles (calculateIndicators env candles p meta) \<and>
         map_option fst (classifySetup candles (calculateIndicators env candles p meta) p)
           \<noteq> Some Breakout"
proof -
  from assms(1) have ne: "candles \<noteq> []" by auto
  have inc: "c_h (last candles) \<in> set (slice_last 20 (map c_h candles))"
    using last_in_slice_last[of "map c_h candles" 20] ne by (simp add: last_map)
  have nb: "\<not> isBreakout candles (calculateIndicators env candles p meta)"
    using last_close_le_hh20[OF ne assms(2)]
    by (simp add: isBreakout_def hh20_calculateIndicators Let_def)
  show ?thesis
    using inc nb not_isBreakout_not_Breakout[OF nb] by (simp add: hh20_calculateIndicators)
qed

theorem isBreakout_false_on_well_formed_bars_witness:
  "20 \<le> length (flat_series 20) \<and>
   list_all (\<lambda>c. c_c c \<le> c_h c) (flat_series 20) \<and>
   \<not> isBreakout (flat_series 20)
       (calculateIndicators sample_env (flat_series 20) (DEFAULT_PARAMS ''2025-10-31'') None) \<and>
   map_option fst
     (classifySetup (flat_series 20)
        (calculateIndicators sample_env (flat_series 20) (DEFAULT_PARAMS ''2025-10-31'') None)
        (DEFAULT_PARAMS ''2025-10-31'')) \<noteq> Some Breakout"
  using isBreakout_false_on_well_formed_bars
    [of "flat_series 20" sample_env "DEFAULT_PARAMS ''2025-10-31''" None]
  by (simp add: flat_series_def bar_fields list_all_iff)

end
